theory Spec2Isabelle
  imports Main "HOL-Library.Word"
begin

section \<open>The gateway client of ai/ai.go\<close>

text \<open>
  The client talks to an HTTP gateway whose behaviour is not known. Everything the
  program takes from outside its own source is a parameter of the model (the record
  \<open>env\<close> below): the network, and the functions of Go's standard library that parse
  URLs and encode or decode JSON. The theorems hold for every such environment.
  Console output (\<open>fmt.Printf\<close>) and \<open>defer resp.Body.Close()\<close> have no effect on
  results and are left out.
\<close>

subsection \<open>Data\<close>

text \<open>
  A dynamic Go value as \<open>encoding/json\<close> decodes it into \<open>interface{}\<close>: \<open>nil\<close>,
  \<open>bool\<close>, \<open>float64\<close>, \<open>string\<close>, \<open>[]interface{}\<close> and \<open>map[string]interface{}\<close>.
  A \<open>float64\<close> is carried as the text the encoder prints for it. A map is the list of
  its entries (keys distinct; Go maps have no order, lookups are by key).
  \<open>VNilMap\<close> is the nil map of static type \<open>map[string]interface{}\<close>, which is what
  unmarshalling the document \<open>null\<close> into a map variable leaves behind.
\<close>

datatype jvalue =
    VNil
  | VBool bool
  | VNum string
  | VStr string
  | VSlice "jvalue list"
  | VMap "(string \<times> jvalue) list"
  | VNilMap

record MCPRequest =
  JSONRPC :: string
  ID :: "64 word"
  Method :: string
  Params :: jvalue

record MCPError =
  Code :: int
  Message :: string
  Data :: jvalue

record MCPResponse =
  resp_JSONRPC :: string
  resp_ID :: int
  resp_Result :: jvalue
  resp_Error :: "MCPError option"

record SessionResponse =
  SessionID :: string
  Status :: string

text \<open>What is written into the body of an outgoing request.\<close>

datatype payload =
    NoBody
  | RawBody string
  | JsonBody jvalue
  | RpcBody MCPRequest

record request =
  rq_method :: string
  rq_url :: string
  rq_header :: "(string \<times> string) list"
  rq_body :: payload

text \<open>
  An HTTP response as the program reads it: the status code, the bytes \<open>io.ReadAll\<close>
  returned and whether it reported an error, \<open>resp.Header.Get\<close> as a function (the
  empty string for a header that is absent), and \<open>resp.Cookies()\<close> as name/value pairs.
\<close>

record response =
  StatusCode :: int
  Body :: string
  ReadErr :: bool
  Header_Get :: "string \<Rightarrow> string"
  Cookies :: "(string \<times> string) list"

text \<open>
  The field \<open>Client *http.Client\<close> is modelled by the requests that were handed to it
  so far, in order: the gateway may answer a request depending on all earlier ones.
  \<open>nextID\<close> is a Go \<open>int\<close> (64 bits, two's complement; \<open>sint\<close> reads it).
\<close>

record MCPClient =
  BaseURL :: string
  Client :: "request list"
  nextID :: "64 word"
  sessionID :: string

text \<open>
  The environment.
  \<^item> \<open>url_ok u\<close>: \<open>http.NewRequest\<close> accepts the URL \<open>u\<close> (it fails only when the URL
    does not parse; the methods used are always valid).
  \<^item> \<open>Do history req\<close>: \<open>c.Client.Do(req)\<close> after the requests \<open>history\<close>;
    \<open>None\<close> is a transport error (DNS, connect, the 30 second timeout).
  \<^item> \<open>unmarshal_map\<close>: \<open>json.Unmarshal\<close> into a \<open>map[string]interface{}\<close> variable;
    \<open>None\<close> is an error, \<open>Some None\<close> the nil map, \<open>Some (Some kvs)\<close> a map.
  \<^item> \<open>unmarshal_SessionResponse\<close>, \<open>unmarshal_MCPResponse\<close>: \<open>json.Unmarshal\<close> into
    the two structs; \<open>None\<close> is an error.
  \<^item> \<open>MarshalIndent v\<close>: \<open>json.MarshalIndent(v, "", "  ")\<close> as a string, the empty string
    when it fails (the program drops its error).
  \<^item> \<open>QueryEscape\<close>: the escaping \<open>url.Values.Encode\<close> applies to keys and values.
\<close>

record env =
  url_ok :: "string \<Rightarrow> bool"
  Do :: "request list \<Rightarrow> request \<Rightarrow> response option"
  unmarshal_map :: "string \<Rightarrow> (string \<times> jvalue) list option option"
  unmarshal_SessionResponse :: "string \<Rightarrow> SessionResponse option"
  unmarshal_MCPResponse :: "string \<Rightarrow> MCPResponse option"
  MarshalIndent :: "jvalue \<Rightarrow> string"
  QueryEscape :: "string \<Rightarrow> string"

text \<open>One constructor for each \<open>fmt.Errorf\<close> of the source.\<close>

datatype error =
    ErrCreateInitRequest      \<comment> \<open>failed to create initialization request\<close>
  | ErrSendInitRequest        \<comment> \<open>failed to send initialization request\<close>
  | ErrNoSession              \<comment> \<open>could not establish session\<close>
  | ErrInitFailed string      \<comment> \<open>initialization failed: message\<close>
  | ErrMCP int string         \<comment> \<open>MCP error code: message\<close>
  | ErrUnexpectedFormat       \<comment> \<open>unexpected response format\<close>
  | ErrDirectFailed           \<comment> \<open>direct API calls failed\<close>
  | ErrInitializeMCP error    \<comment> \<open>failed to initialize MCP connection: ...\<close>
  | ErrListTools error        \<comment> \<open>failed to list tools: ...\<close>
  | ErrNoTools                \<comment> \<open>no tools available\<close>
  | ErrAllFailed              \<comment> \<open>all approaches failed\<close>
  | ErrCreateRequest          \<comment> \<open>failed to create request\<close>
  | ErrSendRequest            \<comment> \<open>failed to send request\<close>
  | ErrReadResponse           \<comment> \<open>failed to read response\<close>
  | ErrHTTP int string        \<comment> \<open>HTTP error status: body\<close>
  | ErrUnmarshal              \<comment> \<open>failed to unmarshal response\<close>
  | ErrPromptEmpty            \<comment> \<open>prompt cannot be empty\<close>
  | ErrModelEmpty             \<comment> \<open>model cannot be empty\<close>

text \<open>
  A Go function with an \<open>error\<close> result returns \<open>Inl e\<close> or \<open>Inr v\<close>. A function that
  can also panic (a failed one-result type assertion) is wrapped in \<open>exec\<close>.
\<close>

datatype panic =
    NotAMap       \<comment> \<open>interface conversion: the value is not a map[string]interface{}\<close>
  | NotAString    \<comment> \<open>interface conversion: the value is not a string\<close>

datatype 'a exec = Returned 'a | Panicked panic

subsection \<open>Construction, request ids, transport\<close>

definition NewMCPClient :: "string \<Rightarrow> MCPClient" where
  "NewMCPClient baseURL =
     \<lparr>BaseURL = baseURL, Client = [], nextID = 1, sessionID = ''''\<rparr>"

definition getNextID :: "MCPClient \<Rightarrow> 64 word \<times> MCPClient" where
  "getNextID c = (nextID c, c\<lparr>nextID := nextID c + 1\<rparr>)"

definition Client_Do :: "env \<Rightarrow> MCPClient \<Rightarrow> request \<Rightarrow> response option \<times> MCPClient" where
  "Client_Do e c req = (Do e (Client c) req, c\<lparr>Client := Client c @ [req]\<rparr>)"

definition json_headers :: "(string \<times> string) list" where
  "json_headers =
     [(''Content-Type'', ''application/json''), (''Accept'', ''application/json'')]"

definition session_headers :: "MCPClient \<Rightarrow> (string \<times> string) list" where
  "session_headers c =
     (if sessionID c \<noteq> '''' then [(''X-Session-ID'', sessionID c), (''Session-ID'', sessionID c)]
      else [])"

definition initParams :: jvalue where
  "initParams = VMap
     [(''protocolVersion'', VStr ''2024-11-05''),
      (''capabilities'', VMap [(''tools'', VMap [])]),
      (''clientInfo'', VMap [(''name'', VStr ''golang-mcp-client''), (''version'', VStr ''1.0.0'')])]"

subsection \<open>Session negotiation\<close>

text \<open>The loop over \<open>resp.Cookies()\<close>: the value of the first cookie with an accepted name.\<close>

fun session_cookie :: "(string \<times> string) list \<Rightarrow> string option" where
  "session_cookie [] = None"
| "session_cookie ((name, val) # cs) =
     (if name = ''session_id'' \<or> name = ''sessionId'' then Some val else session_cookie cs)"

definition initialize_request :: "MCPClient \<Rightarrow> request" where
  "initialize_request c =
     \<lparr>rq_method = ''POST'', rq_url = BaseURL c @ ''/initialize'', rq_header = json_headers,
      rq_body = JsonBody initParams\<rparr>"

definition initializeWithSession :: "env \<Rightarrow> MCPClient \<Rightarrow> (error + unit) \<times> MCPClient" where
  "initializeWithSession e c =
     (let initURL = BaseURL c @ ''/initialize'' in
      if \<not> url_ok e initURL then (Inl ErrCreateInitRequest, c)
      else
        let (r, c1) = Client_Do e c (initialize_request c)
        in case r of
             None \<Rightarrow> (Inl ErrSendInitRequest, c1)
           | Some resp \<Rightarrow>
               if Header_Get resp ''X-Session-ID'' \<noteq> ''''
               then (Inr (), c1\<lparr>sessionID := Header_Get resp ''X-Session-ID''\<rparr>)
               else (case session_cookie (Cookies resp) of
                       Some v \<Rightarrow> (Inr (), c1\<lparr>sessionID := v\<rparr>)
                     | None \<Rightarrow> (Inl ErrNoSession, c1)))"

definition sessionEndpoints :: "string list" where
  "sessionEndpoints = [''/session'', ''/api/session'', ''/sessions'', ''/create-session'']"

definition session_request :: "MCPClient \<Rightarrow> string \<Rightarrow> request" where
  "session_request c endpoint =
     \<lparr>rq_method = ''POST'', rq_url = BaseURL c @ endpoint, rq_header = json_headers,
      rq_body = RawBody ''{}''\<rparr>"

text \<open>
  The \<open>for\<close> loop of \<open>CreateSession\<close> over the endpoints that are left, followed by the
  call of \<open>initializeWithSession\<close> after the loop.
\<close>

fun CreateSession_loop :: "env \<Rightarrow> MCPClient \<Rightarrow> string list \<Rightarrow> (error + unit) \<times> MCPClient" where
  "CreateSession_loop e c [] = initializeWithSession e c"
| "CreateSession_loop e c (endpoint # rest) =
     (let sessionURL = BaseURL c @ endpoint in
      if \<not> url_ok e sessionURL then CreateSession_loop e c rest
      else
        let (r, c1) = Client_Do e c (session_request c endpoint)
        in case r of
             None \<Rightarrow> CreateSession_loop e c1 rest
           | Some resp \<Rightarrow>
               if StatusCode resp = 200 \<or> StatusCode resp = 201 then
                 (case unmarshal_SessionResponse e (Body resp) of
                    Some sessionResp \<Rightarrow>
                      if SessionID sessionResp \<noteq> ''''
                      then (Inr (), c1\<lparr>sessionID := SessionID sessionResp\<rparr>)
                      else if Header_Get resp ''X-Session-ID'' \<noteq> ''''
                      then (Inr (), c1\<lparr>sessionID := Header_Get resp ''X-Session-ID''\<rparr>)
                      else (case session_cookie (Cookies resp) of
                              Some v \<Rightarrow> (Inr (), c1\<lparr>sessionID := v\<rparr>)
                            | None \<Rightarrow> CreateSession_loop e c1 rest)
                  | None \<Rightarrow>
                      if Header_Get resp ''X-Session-ID'' \<noteq> ''''
                      then (Inr (), c1\<lparr>sessionID := Header_Get resp ''X-Session-ID''\<rparr>)
                      else (case session_cookie (Cookies resp) of
                              Some v \<Rightarrow> (Inr (), c1\<lparr>sessionID := v\<rparr>)
                            | None \<Rightarrow> CreateSession_loop e c1 rest))
               else CreateSession_loop e c1 rest)"

definition CreateSession :: "env \<Rightarrow> MCPClient \<Rightarrow> (error + unit) \<times> MCPClient" where
  "CreateSession e c = CreateSession_loop e c sessionEndpoints"

subsection \<open>JSON-RPC\<close>

text \<open>
  \<open>json.Marshal(request)\<close> cannot fail on a request whose parameters are maps of
  strings, which is all the program builds, so that error return has no branch here.
\<close>

definition rpc_request :: "MCPClient \<Rightarrow> MCPRequest \<Rightarrow> request" where
  "rpc_request c request =
     \<lparr>rq_method = ''POST'', rq_url = BaseURL c,
      rq_header = json_headers @ session_headers c, rq_body = RpcBody request\<rparr>"

definition sendRequest :: "env \<Rightarrow> MCPClient \<Rightarrow> MCPRequest \<Rightarrow> (error + MCPResponse) \<times> MCPClient" where
  "sendRequest e c request =
     (if \<not> url_ok e (BaseURL c) then (Inl ErrCreateRequest, c)
      else
        let (r, c1) = Client_Do e c (rpc_request c request)
        in case r of
             None \<Rightarrow> (Inl ErrSendRequest, c1)
           | Some resp \<Rightarrow>
               if ReadErr resp then (Inl ErrReadResponse, c1)
               else if StatusCode resp \<noteq> 200 then (Inl (ErrHTTP (StatusCode resp) (Body resp)), c1)
               else (case unmarshal_MCPResponse e (Body resp) of
                       None \<Rightarrow> (Inl ErrUnmarshal, c1)
                     | Some mcpResponse \<Rightarrow> (Inr mcpResponse, c1)))"

definition Initialize :: "env \<Rightarrow> MCPClient \<Rightarrow> (error + unit) \<times> MCPClient" where
  "Initialize e c =
     (let (_, c1) = CreateSession e c;
          (i, c2) = getNextID c1;
          request = \<lparr>JSONRPC = ''2.0'', ID = i, Method = ''initialize'', Params = initParams\<rparr>;
          (r, c3) = sendRequest e c2 request
      in case r of
           Inl err \<Rightarrow> (Inl err, c3)
         | Inr response \<Rightarrow>
             (case resp_Error response of
                Some me \<Rightarrow> (Inl (ErrInitFailed (Message me)), c3)
              | None \<Rightarrow> (Inr (), c3)))"

definition ListTools :: "env \<Rightarrow> MCPClient \<Rightarrow> (error + jvalue list) \<times> MCPClient" where
  "ListTools e c =
     (let (i, c1) = getNextID c;
          request = \<lparr>JSONRPC = ''2.0'', ID = i, Method = ''tools/list'', Params = VMap []\<rparr>;
          (r, c2) = sendRequest e c1 request
      in case r of
           Inl err \<Rightarrow> (Inl err, c2)
         | Inr response \<Rightarrow>
             (case resp_Error response of
                Some me \<Rightarrow> (Inl (ErrMCP (Code me) (Message me)), c2)
              | None \<Rightarrow>
                  (case resp_Result response of
                     VMap result \<Rightarrow>
                       (case map_of result ''tools'' of
                          Some (VSlice tools) \<Rightarrow> (Inr tools, c2)
                        | _ \<Rightarrow> (Inl ErrUnexpectedFormat, c2))
                   | _ \<Rightarrow> (Inl ErrUnexpectedFormat, c2))))"

definition CallTool ::
  "env \<Rightarrow> MCPClient \<Rightarrow> string \<Rightarrow> (string \<times> jvalue) list \<Rightarrow> (error + jvalue) \<times> MCPClient" where
  "CallTool e c toolName arguments =
     (let params = VMap [(''name'', VStr toolName), (''arguments'', VMap arguments)];
          (i, c1) = getNextID c;
          request = \<lparr>JSONRPC = ''2.0'', ID = i, Method = ''tools/call'', Params = params\<rparr>;
          (r, c2) = sendRequest e c1 request
      in case r of
           Inl err \<Rightarrow> (Inl err, c2)
         | Inr response \<Rightarrow>
             (case resp_Error response of
                Some me \<Rightarrow> (Inl (ErrMCP (Code me) (Message me)), c2)
              | None \<Rightarrow> (Inr (resp_Result response), c2)))"

subsection \<open>The text extractor\<close>

definition textFields :: "string list" where
  "textFields = [''text'', ''response'', ''answer'', ''result'', ''output'', ''message'', ''content'']"

text \<open>The loop over \<open>textFields\<close>: the first field that holds a non-empty string.\<close>

fun first_text :: "(string \<times> jvalue) list \<Rightarrow> string list \<Rightarrow> string option" where
  "first_text resultMap [] = None"
| "first_text resultMap (field # rest) =
     (case map_of resultMap field of
        Some (VStr text) \<Rightarrow> if text \<noteq> '''' then Some text else first_text resultMap rest
      | _ \<Rightarrow> first_text resultMap rest)"

text \<open>The block under the comment "Try nested content".\<close>

definition nested_text :: "(string \<times> jvalue) list \<Rightarrow> string option" where
  "nested_text resultMap =
     (case map_of resultMap ''content'' of
        Some (VSlice (contentItem # _)) \<Rightarrow>
          (case contentItem of
             VMap item \<Rightarrow> (case map_of item ''text'' of Some (VStr text) \<Rightarrow> Some text | _ \<Rightarrow> None)
           | _ \<Rightarrow> None)
      | _ \<Rightarrow> None)"

definition extractTextFromResult :: "env \<Rightarrow> jvalue \<Rightarrow> string" where
  "extractTextFromResult e result =
     (case result of
        VMap resultMap \<Rightarrow>
          (case first_text resultMap textFields of
             Some text \<Rightarrow> text
           | None \<Rightarrow>
               (case nested_text resultMap of
                  Some text \<Rightarrow> text
                | None \<Rightarrow> MarshalIndent e result))
      | _ \<Rightarrow> MarshalIndent e result)"

subsection \<open>The three strategies\<close>

definition directEndpoints :: "string list" where
  "directEndpoints =
     [''/api/chat'', ''/chat'', ''/api/completion'', ''/completion'', ''/api/generate'', ''/generate'']"

definition requestBody :: "string \<Rightarrow> string \<Rightarrow> jvalue" where
  "requestBody prompt model = VMap
     [(''prompt'', VStr prompt), (''model'', VStr model),
      (''query'', VStr prompt), (''input'', VStr prompt)]"

definition direct_request :: "MCPClient \<Rightarrow> string \<Rightarrow> string \<Rightarrow> string \<Rightarrow> request" where
  "direct_request c prompt model endpoint =
     \<lparr>rq_method = ''POST'', rq_url = BaseURL c @ endpoint,
      rq_header = json_headers @ session_headers c,
      rq_body = JsonBody (requestBody prompt model)\<rparr>"

text \<open>The variable \<open>result\<close> of \<open>tryDirectAPI\<close>, passed on as an \<open>interface{}\<close>.\<close>

definition map_value :: "(string \<times> jvalue) list option \<Rightarrow> jvalue" where
  "map_value m = (case m of None \<Rightarrow> VNilMap | Some kvs \<Rightarrow> VMap kvs)"

definition direct_answer :: "env \<Rightarrow> response \<Rightarrow> string" where
  "direct_answer e resp =
     (case unmarshal_map e (Body resp) of
        Some result \<Rightarrow>
          (let text = extractTextFromResult e (map_value result)
           in if text \<noteq> '''' then text else Body resp)
      | None \<Rightarrow> Body resp)"

fun tryDirectAPI_loop ::
  "env \<Rightarrow> MCPClient \<Rightarrow> string \<Rightarrow> string \<Rightarrow> string list \<Rightarrow> (error + string) \<times> MCPClient" where
  "tryDirectAPI_loop e c prompt model [] = (Inl ErrDirectFailed, c)"
| "tryDirectAPI_loop e c prompt model (endpoint # rest) =
     (if \<not> url_ok e (BaseURL c @ endpoint) then tryDirectAPI_loop e c prompt model rest
      else
        let (r, c1) = Client_Do e c (direct_request c prompt model endpoint)
        in case r of
             None \<Rightarrow> tryDirectAPI_loop e c1 prompt model rest
           | Some resp \<Rightarrow>
               if StatusCode resp = 200 then (Inr (direct_answer e resp), c1)
               else tryDirectAPI_loop e c1 prompt model rest)"

definition tryDirectAPI ::
  "env \<Rightarrow> MCPClient \<Rightarrow> string \<Rightarrow> string \<Rightarrow> (error + string) \<times> MCPClient" where
  "tryDirectAPI e c prompt model = tryDirectAPI_loop e c prompt model directEndpoints"

definition tryMCPFlow ::
  "env \<Rightarrow> MCPClient \<Rightarrow> string \<Rightarrow> string \<Rightarrow> (error + string) exec \<times> MCPClient" where
  "tryMCPFlow e c prompt model =
     (case Initialize e c of
        (Inl err, c1) \<Rightarrow> (Returned (Inl (ErrInitializeMCP err)), c1)
      | (Inr _, c1) \<Rightarrow>
          (case ListTools e c1 of
             (Inl err, c2) \<Rightarrow> (Returned (Inl (ErrListTools err)), c2)
           | (Inr tools, c2) \<Rightarrow>
               (case tools of
                  [] \<Rightarrow> (Returned (Inl ErrNoTools), c2)
                | tool # _ \<Rightarrow>
                    (case tool of
                       VMap toolMap \<Rightarrow>
                         (case map_of toolMap ''name'' of
                            Some (VStr toolName) \<Rightarrow>
                              (let arguments = [(''prompt'', VStr prompt), (''model'', VStr model)]
                               in case CallTool e c2 toolName arguments of
                                    (Inl err, c3) \<Rightarrow> (Returned (Inl err), c3)
                                  | (Inr result, c3) \<Rightarrow>
                                      (Returned (Inr (extractTextFromResult e result)), c3))
                          | _ \<Rightarrow> (Panicked NotAString, c2))
                     | VNilMap \<Rightarrow> (Panicked NotAString, c2)
                     | _ \<Rightarrow> (Panicked NotAMap, c2)))))"

text \<open>\<open>params.Encode()\<close>: the keys in sorted order, keys and values escaped.\<close>

definition params_Encode :: "env \<Rightarrow> string \<Rightarrow> string \<Rightarrow> string" where
  "params_Encode e prompt model =
     QueryEscape e ''model'' @ ''='' @ QueryEscape e model @ ''&'' @
     QueryEscape e ''prompt'' @ ''='' @ QueryEscape e prompt @ ''&'' @
     QueryEscape e ''q'' @ ''='' @ QueryEscape e prompt"

definition alternativeEndpoints :: "env \<Rightarrow> string \<Rightarrow> string \<Rightarrow> string list" where
  "alternativeEndpoints e prompt model =
     [''/?'' @ params_Encode e prompt model,
      ''/api?'' @ params_Encode e prompt model,
      ''/query?'' @ params_Encode e prompt model]"

definition get_request :: "MCPClient \<Rightarrow> string \<Rightarrow> request" where
  "get_request c endpoint =
     \<lparr>rq_method = ''GET'', rq_url = BaseURL c @ endpoint,
      rq_header = (if sessionID c \<noteq> '''' then [(''X-Session-ID'', sessionID c)] else []),
      rq_body = NoBody\<rparr>"

fun tryAlternativeEndpoints_loop ::
  "env \<Rightarrow> MCPClient \<Rightarrow> string list \<Rightarrow> (error + string) \<times> MCPClient" where
  "tryAlternativeEndpoints_loop e c [] = (Inl ErrAllFailed, c)"
| "tryAlternativeEndpoints_loop e c (endpoint # rest) =
     (if \<not> url_ok e (BaseURL c @ endpoint) then tryAlternativeEndpoints_loop e c rest
      else
        let (r, c1) = Client_Do e c (get_request c endpoint)
        in case r of
             None \<Rightarrow> tryAlternativeEndpoints_loop e c1 rest
           | Some resp \<Rightarrow>
               if StatusCode resp = 200 then (Inr (Body resp), c1)
               else tryAlternativeEndpoints_loop e c1 rest)"

definition tryAlternativeEndpoints ::
  "env \<Rightarrow> MCPClient \<Rightarrow> string \<Rightarrow> string \<Rightarrow> (error + string) \<times> MCPClient" where
  "tryAlternativeEndpoints e c prompt model =
     tryAlternativeEndpoints_loop e c (alternativeEndpoints e prompt model)"

subsection \<open>The orchestrator and the entry point\<close>

definition GatherInformation ::
  "env \<Rightarrow> MCPClient \<Rightarrow> string \<Rightarrow> string \<Rightarrow> (error + string) exec \<times> MCPClient" where
  "GatherInformation e c prompt model =
     (case tryDirectAPI e c prompt model of
        (Inr result, c1) \<Rightarrow> (Returned (Inr result), c1)
      | (Inl _, c1) \<Rightarrow>
          (case tryMCPFlow e c1 prompt model of
             (Panicked p, c2) \<Rightarrow> (Panicked p, c2)
           | (Returned (Inr result), c2) \<Rightarrow> (Returned (Inr result), c2)
           | (Returned (Inl _), c2) \<Rightarrow>
               (case tryAlternativeEndpoints e c2 prompt model of
                  (r, c3) \<Rightarrow> (Returned r, c3))))"

text \<open>
  \<open>AIFunction\<close> returns its result; the second component is the list of the requests
  it handed to the HTTP client, in order.
\<close>

definition AIFunction :: "env \<Rightarrow> string \<Rightarrow> string \<Rightarrow> (error + string) exec \<times> request list" where
  "AIFunction e prompt model =
     (if prompt = '''' then (Returned (Inl ErrPromptEmpty), [])
      else if model = '''' then (Returned (Inl ErrModelEmpty), [])
      else
        let client = NewMCPClient ''http://localhost:8080'';
            (r, c) = GatherInformation e client prompt model
        in (r, Client c))"

subsection \<open>Notions used to state the properties\<close>






text \<open>
  The order in which a session token is accepted, in the words of the specification:
  (a) the body parsed as a Session Response whose identifier is not empty, (b) the
  session-identifier response header, (c) a cookie named \<open>session_id\<close> or \<open>sessionId\<close>.
\<close>

definition token_from_body :: "env \<Rightarrow> response \<Rightarrow> string option" where
  "token_from_body e resp =
     (case unmarshal_SessionResponse e (Body resp) of
        Some sr \<Rightarrow> if SessionID sr \<noteq> '''' then Some (SessionID sr) else None
      | None \<Rightarrow> None)"

definition token_from_header :: "response \<Rightarrow> string option" where
  "token_from_header resp =
     (if Header_Get resp ''X-Session-ID'' \<noteq> '''' then Some (Header_Get resp ''X-Session-ID'')
      else None)"

definition token_from_cookie :: "response \<Rightarrow> string option" where
  "token_from_cookie resp =
     map_option snd
       (find (\<lambda>cookie. fst cookie = ''session_id'' \<or> fst cookie = ''sessionId'') (Cookies resp))"

fun first_match :: "'a option list \<Rightarrow> 'a option" where
  "first_match [] = None"
| "first_match (Some x # _) = Some x"
| "first_match (None # xs) = first_match xs"

definition accepted_token :: "env \<Rightarrow> response \<Rightarrow> string option" where
  "accepted_token e resp =
     first_match [token_from_body e resp, token_from_header resp, token_from_cookie resp]"

text \<open>
  The response to the first request of a list that the gateway answers with status 200,
  when the requests are sent in order after the requests \<open>history\<close>.
\<close>

fun first_OK_response :: "env \<Rightarrow> request list \<Rightarrow> request list \<Rightarrow> response option" where
  "first_OK_response e history [] = None"
| "first_OK_response e history (req # reqs) =
     (case Do e history req of
        Some resp \<Rightarrow>
          if StatusCode resp = 200 then Some resp
          else first_OK_response e (history @ [req]) reqs
      | None \<Rightarrow> first_OK_response e (history @ [req]) reqs)"

text \<open>The direct-API requests that can be built, in the order of the probe.\<close>

definition direct_requests :: "env \<Rightarrow> MCPClient \<Rightarrow> string \<Rightarrow> string \<Rightarrow> request list" where
  "direct_requests e c prompt model =
     map (direct_request c prompt model)
       (filter (\<lambda>endpoint. url_ok e (BaseURL c @ endpoint)) directEndpoints)"

text \<open>
  The requests of the three stages, told apart by method and URL: POSTs to the six
  direct-API paths; POSTs to the session paths, to the initialization path and to the
  base URL \<open>b\<close> (the JSON-RPC endpoint); GETs.
\<close>

definition direct_stage_request :: "string \<Rightarrow> request \<Rightarrow> bool" where
  "direct_stage_request b r \<longleftrightarrow>
     rq_method r = ''POST'' \<and> rq_url r \<in> set (map ((@) b) directEndpoints)"

definition protocol_stage_request :: "string \<Rightarrow> request \<Rightarrow> bool" where
  "protocol_stage_request b r \<longleftrightarrow>
     rq_method r = ''POST'' \<and>
     rq_url r \<in> set (b # map ((@) b) (''/initialize'' # sessionEndpoints))"

definition get_stage_request :: "request \<Rightarrow> bool" where
  "get_stage_request r \<longleftrightarrow> rq_method r = ''GET''"

text \<open>\<open>issues P c c'\<close>: from \<open>c\<close> to \<open>c'\<close> only requests satisfying \<open>P\<close> were sent.\<close>

definition issues :: "(request \<Rightarrow> bool) \<Rightarrow> MCPClient \<Rightarrow> MCPClient \<Rightarrow> bool" where
  "issues P c c' \<longleftrightarrow>
     BaseURL c' = BaseURL c \<and> (\<exists>rs. Client c' = Client c @ rs \<and> list_all P rs)"


subsection \<open>Scenarios\<close>

text \<open>
  Concrete gateways, used to run the model. Their library functions agree with Go's
  on the strings and values that occur in the scenarios: every URL parses, the prompt
  \<open>p\<close> and the model \<open>m\<close> need no escaping in a query string, and the decoders are
  tables of the response bodies used (every other body that occurs is not JSON).
\<close>

text \<open>
  The encoder on ASCII text: a string is written between double quotes, with the
  quote, the backslash, control characters and the characters \<open><\<close>, \<open>>\<close>, \<open>&\<close>
  escaped; arrays and maps are broken over lines with two spaces per level. The
  entries of a map are printed in the order of the list, so a map that is printed is
  listed in key order (the encoder sorts by key). Backspace and form feed are written
  in the six-character form, as Go did before version 1.22; no scenario prints them.
\<close>

definition hexdigit :: "nat \<Rightarrow> char" where
  "hexdigit n = ''0123456789abcdef'' ! n"

definition escape_byte :: "char \<Rightarrow> string" where
  "escape_byte c =
     (if c = CHR 0x22 then [CHR 0x5C, CHR 0x22]
      else if c = CHR 0x5C then [CHR 0x5C, CHR 0x5C]
      else if c = CHR 0x0A then [CHR 0x5C, CHR ''n'']
      else if c = CHR 0x0D then [CHR 0x5C, CHR ''r'']
      else if c = CHR 0x09 then [CHR 0x5C, CHR ''t'']
      else if (of_char c :: nat) < 32 \<or> c = CHR ''<'' \<or> c = CHR ''>'' \<or> c = CHR ''&''
      then [CHR 0x5C, CHR ''u'', CHR ''0'', CHR ''0'',
            hexdigit (of_char c div 16), hexdigit (of_char c mod 16)]
      else [c])"

definition quote :: "string \<Rightarrow> string" where
  "quote s = CHR 0x22 # concat (map escape_byte s) @ [CHR 0x22]"

fun encode :: "string \<Rightarrow> jvalue \<Rightarrow> string"
  and encode_elements :: "string \<Rightarrow> jvalue list \<Rightarrow> string"
  and encode_members :: "string \<Rightarrow> (string \<times> jvalue) list \<Rightarrow> string" where
  "encode ind VNil = ''null''"
| "encode ind VNilMap = ''null''"
| "encode ind (VBool b) = (if b then ''true'' else ''false'')"
| "encode ind (VNum t) = t"
| "encode ind (VStr s) = quote s"
| "encode ind (VSlice []) = ''[]''"
| "encode ind (VSlice (x # xs)) =
     ''['' @ [CHR 0x0A] @ ind @ ''  '' @ encode (ind @ ''  '') x @
     encode_elements (ind @ ''  '') xs @ [CHR 0x0A] @ ind @ '']''"
| "encode ind (VMap []) = ''{}''"
| "encode ind (VMap ((k, v) # kvs)) =
     ''{'' @ [CHR 0x0A] @ ind @ ''  '' @ quote k @ '': '' @ encode (ind @ ''  '') v @
     encode_members (ind @ ''  '') kvs @ [CHR 0x0A] @ ind @ ''}''"
| "encode_elements ind [] = ''''"
| "encode_elements ind (x # xs) =
     '','' @ [CHR 0x0A] @ ind @ encode ind x @ encode_elements ind xs"
| "encode_members ind [] = ''''"
| "encode_members ind ((k, v) # kvs) =
     '','' @ [CHR 0x0A] @ ind @ quote k @ '': '' @ encode ind v @ encode_members ind kvs"

definition go_MarshalIndent :: "jvalue \<Rightarrow> string" where
  "go_MarshalIndent v = encode '''' v"

definition scenario_unmarshal_map :: "string \<Rightarrow> (string \<times> jvalue) list option option" where
  \<open>scenario_unmarshal_map body =
     (if body = ''{"answer":"b","text":"a"}''
        then Some (Some [(''answer'', VStr ''b''), (''text'', VStr ''a'')])
      else if body = ''{"text":"x"}''
        then Some (Some [(''text'', VStr ''x'')])
      else if body = ''{"answer":"Sunny, 72F"}''
        then Some (Some [(''answer'', VStr ''Sunny, 72F'')])
      else None)\<close>

definition scenario_unmarshal_SessionResponse :: "string \<Rightarrow> SessionResponse option" where
  \<open>scenario_unmarshal_SessionResponse body =
     (if body = ''{"sessionId":"abc","status":"ok"}''
        then Some \<lparr>SessionID = ''abc'', Status = ''ok''\<rparr>
      else None)\<close>

definition scenario_unmarshal_MCPResponse :: "string \<Rightarrow> MCPResponse option" where
  \<open>scenario_unmarshal_MCPResponse body =
     (if body = ''{"jsonrpc":"2.0","id":1,"result":{}}''
        then Some \<lparr>resp_JSONRPC = ''2.0'', resp_ID = 1, resp_Result = VMap [], resp_Error = None\<rparr>
      else if body = ''{"jsonrpc":"2.0","id":2,"result":{"tools":[42]}}''
        then Some \<lparr>resp_JSONRPC = ''2.0'', resp_ID = 2,
                   resp_Result = VMap [(''tools'', VSlice [VNum ''42''])], resp_Error = None\<rparr>
      else if body = ''{"jsonrpc":"2.0","id":2,"result":{"tools":[{}]}}''
        then Some \<lparr>resp_JSONRPC = ''2.0'', resp_ID = 2,
                   resp_Result = VMap [(''tools'', VSlice [VMap []])], resp_Error = None\<rparr>
      else if body = ''{"jsonrpc":"2.0","id":2,"result":{"tools":[{"name":"weather"}]}}''
        then Some \<lparr>resp_JSONRPC = ''2.0'', resp_ID = 2,
                   resp_Result = VMap [(''tools'', VSlice [VMap [(''name'', VStr ''weather'')]])],
                   resp_Error = None\<rparr>
      else if body = ''{"jsonrpc":"2.0","id":3,"result":{"content":[{"text":""}]}}''
        then Some \<lparr>resp_JSONRPC = ''2.0'', resp_ID = 3,
                   resp_Result = VMap [(''content'', VSlice [VMap [(''text'', VStr '''')]])],
                   resp_Error = None\<rparr>
      else None)\<close>

definition scenario :: "(request list \<Rightarrow> request \<Rightarrow> response option) \<Rightarrow> env" where
  "scenario net =
     \<lparr>url_ok = (\<lambda>_. True), Do = net,
      unmarshal_map = scenario_unmarshal_map,
      unmarshal_SessionResponse = scenario_unmarshal_SessionResponse,
      unmarshal_MCPResponse = scenario_unmarshal_MCPResponse,
      MarshalIndent = go_MarshalIndent,
      QueryEscape = (\<lambda>s. s)\<rparr>"

definition reply :: "int \<Rightarrow> string \<Rightarrow> response" where
  "reply status body =
     \<lparr>StatusCode = status, Body = body, ReadErr = False, Header_Get = (\<lambda>_. ''''), Cookies = []\<rparr>"

definition not_found :: response where
  "not_found = reply 404 ''404 page not found''"

definition base :: string where
  "base = ''http://localhost:8080''"

text \<open>A gateway that answers \<open>/api/chat\<close> with two recognized fields.\<close>

definition two_fields_gateway :: env where
  \<open>two_fields_gateway = scenario (\<lambda>history req.
     if rq_url req = base @ ''/api/chat'' then Some (reply 200 ''{"answer":"b","text":"a"}'')
     else Some not_found)\<close>

text \<open>
  A gateway that answers \<open>/api/chat\<close> with status 200 and a body that is not JSON, and
  \<open>/chat\<close> with a recognized field.
\<close>

definition two_endpoints_gateway :: env where
  \<open>two_endpoints_gateway = scenario (\<lambda>history req.
     if rq_url req = base @ ''/api/chat'' then Some (reply 200 ''hello'')
     else if rq_url req = base @ ''/chat'' then Some (reply 200 ''{"text":"x"}'')
     else Some not_found)\<close>

text \<open>A gateway whose first answer with status 200 comes from \<open>/chat\<close>.\<close>

definition weather_gateway :: env where
  \<open>weather_gateway = scenario (\<lambda>history req.
     if rq_url req = base @ ''/chat'' then Some (reply 200 ''{"answer":"Sunny, 72F"}'')
     else Some not_found)\<close>

text \<open>
  A gateway that hands out the session token \<open>tok\<close> in a header of its answer to
  \<open>/session\<close> and knows no other path.
\<close>

definition session_only_gateway :: env where
  "session_only_gateway = scenario (\<lambda>history req.
     if rq_url req = base @ ''/session''
     then Some ((reply 200 '''')\<lparr>Header_Get := (\<lambda>k. if k = ''X-Session-ID'' then ''tok'' else '''')\<rparr>)
     else Some not_found)"

text \<open>
  A gateway that answers \<open>/session\<close> with status 201 and a token in the body, another
  in the header and a third in a cookie.
\<close>

definition three_tokens_response :: response where
  \<open>three_tokens_response =
     \<lparr>StatusCode = 201, Body = ''{"sessionId":"abc","status":"ok"}'', ReadErr = False,
      Header_Get = (\<lambda>k. if k = ''X-Session-ID'' then ''from-header'' else ''''),
      Cookies = [(''theme'', ''dark''), (''session_id'', ''from-cookie'')]\<rparr>\<close>

definition three_tokens_gateway :: env where
  "three_tokens_gateway = scenario (\<lambda>history req.
     if rq_url req = base @ ''/session'' then Some three_tokens_response else Some not_found)"

text \<open>A gateway that fails \<open>/initialize\<close> with status 500 but sets a session cookie.\<close>

definition failing_initialize_response :: response where
  "failing_initialize_response =
     \<lparr>StatusCode = 500, Body = ''internal error'', ReadErr = False,
      Header_Get = (\<lambda>_. ''''), Cookies = [(''sessionId'', ''tok'')]\<rparr>"

definition failing_initialize_gateway :: env where
  "failing_initialize_gateway = scenario (\<lambda>history req.
     if rq_url req = base @ ''/initialize'' then Some failing_initialize_response
     else Some not_found)"

text \<open>
  A JSON-RPC gateway at the base URL: it answers \<open>initialize\<close>, answers \<open>tools/list\<close>
  with the body \<open>tools\<close> and \<open>tools/call\<close> with the body \<open>result\<close>, and knows no
  other path.
\<close>

definition rpc_gateway :: "string \<Rightarrow> string \<Rightarrow> env" where
  \<open>rpc_gateway tools result = scenario (\<lambda>history req.
     if rq_url req = base then
       (case rq_body req of
          RpcBody r \<Rightarrow>
            if Method r = ''initialize'' then Some (reply 200 ''{"jsonrpc":"2.0","id":1,"result":{}}'')
            else if Method r = ''tools/list'' then Some (reply 200 tools)
            else if Method r = ''tools/call'' then Some (reply 200 result)
            else Some not_found
        | _ \<Rightarrow> Some not_found)
     else Some not_found)\<close>

definition number_tool :: string where
  \<open>number_tool = ''{"jsonrpc":"2.0","id":2,"result":{"tools":[42]}}''\<close>

definition nameless_tool :: string where
  \<open>nameless_tool = ''{"jsonrpc":"2.0","id":2,"result":{"tools":[{}]}}''\<close>

definition weather_tool :: string where
  \<open>weather_tool = ''{"jsonrpc":"2.0","id":2,"result":{"tools":[{"name":"weather"}]}}''\<close>

definition empty_text_result :: string where
  \<open>empty_text_result = ''{"jsonrpc":"2.0","id":3,"result":{"content":[{"text":""}]}}''\<close>

section \<open>Properties\<close>

subsection \<open>Unfolding the model and the scenarios\<close>

lemmas model_defs = GatherInformation_def tryDirectAPI_def tryMCPFlow_def tryAlternativeEndpoints_def
  Initialize_def ListTools_def CallTool_def sendRequest_def CreateSession_def initializeWithSession_def
  getNextID_def Client_Do_def NewMCPClient_def directEndpoints_def sessionEndpoints_def
  alternativeEndpoints_def params_Encode_def direct_request_def get_request_def session_request_def
  initialize_request_def rpc_request_def json_headers_def session_headers_def direct_answer_def
  extractTextFromResult_def textFields_def nested_text_def map_value_def requestBody_def

lemmas scenario_defs = scenario_def reply_def not_found_def base_def scenario_unmarshal_map_def
  scenario_unmarshal_SessionResponse_def scenario_unmarshal_MCPResponse_def go_MarshalIndent_def
  quote_def escape_byte_def hexdigit_def

subsection \<open>The entry point\<close>

text \<open>
  C6. \<open>AIFunction\<close> with an empty prompt (whatever the model) and with an empty model
  (whatever the prompt) returns a configuration error, "prompt cannot be empty" or
  "model cannot be empty", and has handed no request to the HTTP client.
\<close>

theorem AIFunction_empty_argument:
  "AIFunction e '''' model = (Returned (Inl ErrPromptEmpty), [])
   \<and> AIFunction e prompt '''' =
       (Returned (Inl (if prompt = '''' then ErrPromptEmpty else ErrModelEmpty)), [])"
  by (simp add: AIFunction_def)

subsection \<open>Session negotiation\<close>

lemma session_cookie_find:
  "session_cookie cs =
     map_option snd (find (\<lambda>cookie. fst cookie = ''session_id'' \<or> fst cookie = ''sessionId'') cs)"
  by (induction cs rule: session_cookie.induct) simp_all

lemma token_from_cookie_eq: "token_from_cookie resp = session_cookie (Cookies resp)"
  by (simp add: token_from_cookie_def session_cookie_find)

lemma session_cookie_None_iff:
  "session_cookie cs = None \<longleftrightarrow>
     \<not> (\<exists>v. (''session_id'', v) \<in> set cs \<or> (''sessionId'', v) \<in> set cs)"
  by (induction cs rule: session_cookie.induct) auto

text \<open>
  C8. When the loop of \<open>CreateSession\<close> reaches an endpoint whose response has status
  200 or 201, the token is taken from the first of: the body parsed as a Session Response
  with a non-empty identifier, the \<open>X-Session-ID\<close> response header, a cookie named
  \<open>session_id\<close> or \<open>sessionId\<close>. With a match the token is stored and negotiation
  succeeds at once: the one request to this endpoint is the only one sent, whatever
  endpoints are left.
\<close>

theorem CreateSession_first_match:
  assumes "url_ok e (BaseURL c @ endpoint)"
      and "Do e (Client c) (session_request c endpoint) = Some resp"
      and "StatusCode resp = 200 \<or> StatusCode resp = 201"
      and "accepted_token e resp = Some token"
  shows "CreateSession_loop e c (endpoint # rest) =
           (Inr (), c\<lparr>Client := Client c @ [session_request c endpoint], sessionID := token\<rparr>)"
  using assms
  by (auto simp: Client_Do_def accepted_token_def token_from_body_def token_from_header_def
      token_from_cookie_eq split: option.splits if_splits)

theorem CreateSession_first_match_witness:
  "url_ok three_tokens_gateway (BaseURL (NewMCPClient base) @ ''/session'')
   \<and> Do three_tokens_gateway [] (session_request (NewMCPClient base) ''/session'') = Some three_tokens_response
   \<and> StatusCode three_tokens_response = 201
   \<and> accepted_token three_tokens_gateway three_tokens_response = Some ''abc''
   \<and> fst (CreateSession three_tokens_gateway (NewMCPClient base)) = Inr ()
   \<and> sessionID (snd (CreateSession three_tokens_gateway (NewMCPClient base))) = ''abc''
   \<and> length (Client (snd (CreateSession three_tokens_gateway (NewMCPClient base)))) = 1"
proof -
  let ?e = three_tokens_gateway and ?c = "NewMCPClient base"
  have 1: "url_ok ?e (BaseURL ?c @ ''/session'')"
    by (simp add: three_tokens_gateway_def scenario_def)
  have 2: "Do ?e (Client ?c) (session_request ?c ''/session'') = Some three_tokens_response"
    by (simp add: three_tokens_gateway_def scenario_def session_request_def NewMCPClient_def)
  have 3: "StatusCode three_tokens_response = 200 \<or> StatusCode three_tokens_response = 201"
    by (simp add: three_tokens_response_def)
  have 4: "accepted_token ?e three_tokens_response = Some ''abc''"
    by (simp add: accepted_token_def token_from_body_def three_tokens_gateway_def scenario_def
        three_tokens_response_def scenario_unmarshal_SessionResponse_def)
  have c0: "Client ?c = []" by (simp add: NewMCPClient_def)
  from CreateSession_first_match [OF 1 2 3 4, of "[''/api/session'', ''/sessions'', ''/create-session'']"]
  have "CreateSession ?e ?c =
          (Inr (), ?c\<lparr>Client := Client ?c @ [session_request ?c ''/session''], sessionID := ''abc''\<rparr>)"
    by (simp only: CreateSession_def sessionEndpoints_def)
  with 1 2 3 4 c0 show ?thesis by (simp add: three_tokens_response_def)
qed

text \<open>
  C9. Whatever the status code of the response to the initialization request,
  \<open>initializeWithSession\<close> succeeds if and only if the response carries an
  \<open>X-Session-ID\<close> header (one that \<open>Header.Get\<close> reads as a non-empty string) or a
  cookie named \<open>session_id\<close> or \<open>sessionId\<close>, and then the session token is the header
  value or else the value of the first such cookie. The instance that follows is a
  response with status 500.
\<close>

theorem initializeWithSession_any_status:
  assumes "url_ok e (BaseURL c @ ''/initialize'')"
      and "Do e (Client c) (initialize_request c) = Some resp"
  shows "(fst (initializeWithSession e c) = Inr ()) =
           (Header_Get resp ''X-Session-ID'' \<noteq> '''' \<or>
            (\<exists>v. (''session_id'', v) \<in> set (Cookies resp) \<or> (''sessionId'', v) \<in> set (Cookies resp)))
       \<and> (fst (initializeWithSession e c) = Inr () \<longrightarrow>
            Some (sessionID (snd (initializeWithSession e c))) =
              first_match [token_from_header resp, token_from_cookie resp])"
proof (cases "Header_Get resp ''X-Session-ID'' = ''''")
  case False
  with assms show ?thesis
    by (simp add: initializeWithSession_def Client_Do_def token_from_header_def)
next
  case True
  show ?thesis
  proof (cases "session_cookie (Cookies resp)")
    case None
    with True assms session_cookie_None_iff [of "Cookies resp"] show ?thesis
      by (simp add: initializeWithSession_def Client_Do_def)
  next
    case (Some v)
    with True assms session_cookie_None_iff [of "Cookies resp"] show ?thesis
      by (simp add: initializeWithSession_def Client_Do_def token_from_header_def
          token_from_cookie_eq)
  qed
qed

theorem initializeWithSession_any_status_witness:
  "url_ok failing_initialize_gateway (BaseURL (NewMCPClient base) @ ''/initialize'')
   \<and> Do failing_initialize_gateway [] (initialize_request (NewMCPClient base)) = Some failing_initialize_response
   \<and> StatusCode failing_initialize_response = 500
   \<and> fst (initializeWithSession failing_initialize_gateway (NewMCPClient base)) = Inr ()
   \<and> sessionID (snd (initializeWithSession failing_initialize_gateway (NewMCPClient base))) = ''tok''"
proof -
  let ?e = failing_initialize_gateway and ?c = "NewMCPClient base"
  have 1: "url_ok ?e (BaseURL ?c @ ''/initialize'')"
    by (simp add: failing_initialize_gateway_def scenario_def)
  have 2: "Do ?e (Client ?c) (initialize_request ?c) = Some failing_initialize_response"
    by (simp add: failing_initialize_gateway_def scenario_def initialize_request_def NewMCPClient_def)
  have c0: "Client ?c = []" by (simp add: NewMCPClient_def)
  have 3: "first_match [token_from_header failing_initialize_response,
             token_from_cookie failing_initialize_response] = Some ''tok''"
    by (simp add: token_from_header_def token_from_cookie_def failing_initialize_response_def)
  have 4: "(''sessionId'', ''tok'') \<in> set (Cookies failing_initialize_response)"
    by (simp add: failing_initialize_response_def)
  from initializeWithSession_any_status [OF 1 2] 3 4
  have "fst (initializeWithSession ?e ?c) = Inr ()
      \<and> sessionID (snd (initializeWithSession ?e ?c)) = ''tok''"
    by auto
  with 1 2 c0 show ?thesis by (simp add: failing_initialize_response_def)
qed

subsection \<open>The direct-API probe\<close>

lemma direct_request_Client:
  "direct_request (c\<lparr>Client := h\<rparr>) prompt model endpoint = direct_request c prompt model endpoint"
  by (simp add: direct_request_def session_headers_def)

lemma tryDirectAPI_loop_first_OK:
  "first_OK_response e (Client c)
     (map (direct_request c prompt model)
        (filter (\<lambda>endpoint. url_ok e (BaseURL c @ endpoint)) endpoints)) = Some resp
   \<Longrightarrow> fst (tryDirectAPI_loop e c prompt model endpoints) = Inr (direct_answer e resp)"
proof (induction endpoints arbitrary: c)
  case Nil
  then show ?case by simp
next
  case (Cons endpoint rest)
  show ?case
  proof (cases "url_ok e (BaseURL c @ endpoint)")
    case False
    with Cons show ?thesis by simp
  next
    case ok: True
    let ?req = "direct_request c prompt model endpoint"
    let ?c1 = "c\<lparr>Client := Client c @ [?req]\<rparr>"
    have step: "first_OK_response e (Client c @ [?req])
        (map (direct_request c prompt model)
           (filter (\<lambda>endpoint. url_ok e (BaseURL c @ endpoint)) rest)) = Some resp
      \<Longrightarrow> fst (tryDirectAPI_loop e ?c1 prompt model rest) = Inr (direct_answer e resp)"
      using Cons.IH [of ?c1] by (simp add: direct_request_Client)
    show ?thesis
    proof (cases "Do e (Client c) ?req")
      case None
      with ok Cons.prems step show ?thesis by (simp add: Client_Do_def)
    next
      case (Some r)
      with ok Cons.prems step show ?thesis
        by (cases "StatusCode r = 200") (simp_all add: Client_Do_def)
    qed
  qed
qed

lemma first_text_priority:
  assumes "\<forall>g\<in>set pre. \<forall>s. map_of kvs g = Some (VStr s) \<longrightarrow> s = ''''"
      and "map_of kvs f = Some (VStr t)" and "t \<noteq> ''''"
  shows "first_text kvs (pre @ f # post) = Some t"
  using assms
proof (induction pre)
  case Nil
  then show ?case by simp
next
  case (Cons g pre)
  then show ?case by (auto split: option.splits jvalue.splits)
qed

lemma GatherInformation_direct:
  "fst (tryDirectAPI e c prompt model) = Inr t \<Longrightarrow>
   fst (GatherInformation e c prompt model) = Returned (Inr t)"
  by (cases "tryDirectAPI e c prompt model") (simp add: GatherInformation_def)

text \<open>
  C1, as amended. For every prompt and model (empty or not): if the first direct-API
  endpoint, in the order of the probe, that answers with status 200 has a body that
  decodes to a JSON object, and \<open>f\<close> is the first of the seven fields text, response,
  answer, result, output, message, content, in this order, that holds a non-empty
  string \<open>t\<close>, then \<open>GatherInformation\<close> returns \<open>t\<close>.
\<close>

theorem GatherInformation_first_OK_endpoint:
  assumes "first_OK_response e (Client c) (direct_requests e c prompt model) = Some resp"
      and "unmarshal_map e (Body resp) = Some (Some kvs)"
      and "textFields = pre @ f # post"
      and "\<forall>g\<in>set pre. \<forall>s. map_of kvs g = Some (VStr s) \<longrightarrow> s = ''''"
      and "map_of kvs f = Some (VStr t)" and "t \<noteq> ''''"
  shows "fst (GatherInformation e c prompt model) = Returned (Inr t)"
proof -
  have "first_text kvs textFields = Some t"
    unfolding assms(3) using assms(4-6) by (rule first_text_priority)
  with assms(2,6) have "direct_answer e resp = t"
    by (simp add: direct_answer_def extractTextFromResult_def map_value_def)
  moreover have "fst (tryDirectAPI e c prompt model) = Inr (direct_answer e resp)"
    unfolding tryDirectAPI_def
    using assms(1) unfolding direct_requests_def by (rule tryDirectAPI_loop_first_OK)
  ultimately show ?thesis
    by (simp add: GatherInformation_direct)
qed

theorem GatherInformation_first_OK_endpoint_witness:
  \<open>first_OK_response weather_gateway (Client (NewMCPClient base))
       (direct_requests weather_gateway (NewMCPClient base) ''p'' ''m'')
     = Some (reply 200 ''{"answer":"Sunny, 72F"}'')
   \<and> unmarshal_map weather_gateway ''{"answer":"Sunny, 72F"}''
     = Some (Some [(''answer'', VStr ''Sunny, 72F'')])
   \<and> fst (GatherInformation weather_gateway (NewMCPClient base) ''p'' ''m'')
     = Returned (Inr ''Sunny, 72F'')\<close>
proof -
  let ?e = weather_gateway and ?c = "NewMCPClient base"
  let ?kvs = "[(''answer'', VStr ''Sunny, 72F'')]"
  have 1: \<open>first_OK_response ?e (Client ?c) (direct_requests ?e ?c ''p'' ''m'')
             = Some (reply 200 ''{"answer":"Sunny, 72F"}'')\<close>
    by (simp add: direct_requests_def directEndpoints_def weather_gateway_def scenario_defs
        NewMCPClient_def direct_request_def session_headers_def json_headers_def requestBody_def)
  have 2: \<open>unmarshal_map ?e (Body (reply 200 ''{"answer":"Sunny, 72F"}'')) = Some (Some ?kvs)\<close>
    by (simp add: weather_gateway_def scenario_defs)
  have 3: "textFields = [''text'', ''response''] @ ''answer'' # [''result'', ''output'', ''message'', ''content'']"
    by (simp add: textFields_def)
  have 4: "\<forall>g\<in>set [''text'', ''response'']. \<forall>s. map_of ?kvs g = Some (VStr s) \<longrightarrow> s = ''''"
    by simp
  have 5: "map_of ?kvs ''answer'' = Some (VStr ''Sunny, 72F'')" by simp
  have 6: "''Sunny, 72F'' \<noteq> ''''" by simp
  from GatherInformation_first_OK_endpoint [OF 1 2 3 4 5 6] 1 2 show ?thesis
    by (simp add: reply_def)
qed

text \<open>
  C1 as stated fails in two ways. A gateway answers \<open>/api/chat\<close> with status 200 and
  an object in which \<open>answer\<close> is the non-empty string \<open>b\<close>; the result is \<open>a\<close>, the
  value of the field \<open>text\<close>, which comes first. Another gateway answers \<open>/chat\<close> with
  status 200 and the field \<open>text\<close>; the result is the body \<open>hello\<close> of \<open>/api/chat\<close>,
  which answered 200 before, and \<open>/chat\<close> is not asked.
\<close>

theorem GatherInformation_field_counterexample:
  \<open>Do two_fields_gateway [] (direct_request (NewMCPClient base) ''p'' ''m'' ''/api/chat'')
     = Some (reply 200 ''{"answer":"b","text":"a"}'')
   \<and> unmarshal_map two_fields_gateway ''{"answer":"b","text":"a"}''
     = Some (Some [(''answer'', VStr ''b''), (''text'', VStr ''a'')])
   \<and> fst (GatherInformation two_fields_gateway (NewMCPClient base) ''p'' ''m'') = Returned (Inr ''a'')
   \<and> Do two_endpoints_gateway
        [direct_request (NewMCPClient base) ''p'' ''m'' ''/api/chat'']
        (direct_request (NewMCPClient base) ''p'' ''m'' ''/chat'')
     = Some (reply 200 ''{"text":"x"}'')
   \<and> unmarshal_map two_endpoints_gateway ''{"text":"x"}'' = Some (Some [(''text'', VStr ''x'')])
   \<and> fst (GatherInformation two_endpoints_gateway (NewMCPClient base) ''p'' ''m'')
     = Returned (Inr ''hello'')\<close>
proof -
  have a: \<open>Do two_fields_gateway [] (direct_request (NewMCPClient base) ''p'' ''m'' ''/api/chat'')
             = Some (reply 200 ''{"answer":"b","text":"a"}'')\<close>
    by (simp add: two_fields_gateway_def scenario_def direct_request_def NewMCPClient_def)
  have b: \<open>unmarshal_map two_fields_gateway ''{"answer":"b","text":"a"}''
             = Some (Some [(''answer'', VStr ''b''), (''text'', VStr ''a'')])\<close>
    by (simp add: two_fields_gateway_def scenario_def scenario_unmarshal_map_def)
  have c: "fst (tryDirectAPI two_fields_gateway (NewMCPClient base) ''p'' ''m'') = Inr ''a''"
    by (simp add: tryDirectAPI_def directEndpoints_def two_fields_gateway_def scenario_defs
        NewMCPClient_def direct_request_def Client_Do_def direct_answer_def
        extractTextFromResult_def map_value_def textFields_def)
  have d: \<open>Do two_endpoints_gateway
        [direct_request (NewMCPClient base) ''p'' ''m'' ''/api/chat'']
        (direct_request (NewMCPClient base) ''p'' ''m'' ''/chat'')
     = Some (reply 200 ''{"text":"x"}'')\<close>
    by (simp add: two_endpoints_gateway_def scenario_def direct_request_def NewMCPClient_def base_def)
  have e: \<open>unmarshal_map two_endpoints_gateway ''{"text":"x"}'' = Some (Some [(''text'', VStr ''x'')])\<close>
    by (simp add: two_endpoints_gateway_def scenario_def scenario_unmarshal_map_def)
  have f: "fst (tryDirectAPI two_endpoints_gateway (NewMCPClient base) ''p'' ''m'') = Inr ''hello''"
    by (simp add: tryDirectAPI_def directEndpoints_def two_endpoints_gateway_def scenario_defs
        NewMCPClient_def direct_request_def Client_Do_def direct_answer_def)
  from a b d e GatherInformation_direct [OF c] GatherInformation_direct [OF f] show ?thesis
    by simp
qed

subsection \<open>The text extractor\<close>

lemma first_text_Some:
  "first_text kvs fs = Some t \<Longrightarrow> t \<noteq> '''' \<and> (\<exists>f\<in>set fs. map_of kvs f = Some (VStr t))"
  by (induction fs) (auto split: option.splits jvalue.splits if_splits)

lemma first_text_None:
  "\<forall>f\<in>set fs. \<forall>s. map_of kvs f = Some (VStr s) \<longrightarrow> s = '''' \<Longrightarrow> first_text kvs fs = None"
  by (induction fs) (auto split: option.splits jvalue.splits)

lemma extractTextFromResult_top_level:
  assumes "textFields = pre @ f # post"
      and "\<forall>g\<in>set pre. \<forall>s. map_of kvs g = Some (VStr s) \<longrightarrow> s = ''''"
      and "map_of kvs f = Some (VStr t)" and "t \<noteq> ''''"
  shows "extractTextFromResult e (VMap kvs) = t"
proof -
  have "first_text kvs textFields = Some t"
    unfolding assms(1) using assms(2-4) by (rule first_text_priority)
  then show ?thesis by (simp add: extractTextFromResult_def)
qed

lemma extractTextFromResult_nested:
  assumes "\<forall>f\<in>set textFields. \<forall>s. map_of kvs f = Some (VStr s) \<longrightarrow> s = ''''"
      and "map_of kvs ''content'' = Some (VSlice (VMap item # items))"
      and "map_of item ''text'' = Some (VStr t)"
  shows "extractTextFromResult e (VMap kvs) = t"
proof -
  from assms(1) have "first_text kvs textFields = None" by (rule first_text_None)
  moreover from assms(2,3) have "nested_text kvs = Some t" by (simp add: nested_text_def)
  ultimately show ?thesis by (simp add: extractTextFromResult_def)
qed

lemma nested_text_None:
  assumes "\<not> (\<exists>item items t. map_of kvs ''content'' = Some (VSlice (VMap item # items))
                 \<and> map_of item ''text'' = Some (VStr t))"
  shows "nested_text kvs = None"
  using assms
  by (auto simp: nested_text_def split: option.splits jvalue.splits list.splits)

lemma extractTextFromResult_no_match:
  assumes "\<forall>f\<in>set textFields. \<forall>s. map_of kvs f = Some (VStr s) \<longrightarrow> s = ''''"
      and "\<not> (\<exists>item items t. map_of kvs ''content'' = Some (VSlice (VMap item # items))
                 \<and> map_of item ''text'' = Some (VStr t))"
  shows "extractTextFromResult e (VMap kvs) = MarshalIndent e (VMap kvs)"
proof -
  from assms(1) have "first_text kvs textFields = None" by (rule first_text_None)
  moreover from assms(2) have "nested_text kvs = None" by (rule nested_text_None)
  ultimately show ?thesis by (simp add: extractTextFromResult_def)
qed

lemma extractTextFromResult_empty_field:
  "f \<in> set textFields \<Longrightarrow>
   extractTextFromResult e (VMap [(f, VStr '''')]) = MarshalIndent e (VMap [(f, VStr '''')])"
  by (rule extractTextFromResult_no_match) auto

text \<open>
  C4, as amended. The Text Extractor returns a string for every value and has no way
  to fail. For a map it returns the first of the seven fields, in their priority order,
  that holds a non-empty string; failing that, the string under \<open>content[0].text\<close>;
  failing that, and for every value that is not a map (null, numbers, strings, arrays),
  the pretty-printed JSON of the whole value. Applied to its own output, a string, it
  returns \<open>json.MarshalIndent\<close> of that string: it is idempotent at a value exactly when
  the encoder returns the output unchanged.
\<close>

theorem extractTextFromResult_fallback:
  "(extractTextFromResult e v = MarshalIndent e v
      \<or> (\<exists>kvs. v = VMap kvs \<and> extractTextFromResult e v \<noteq> '''' \<and>
            (\<exists>f\<in>set textFields. map_of kvs f = Some (VStr (extractTextFromResult e v))))
      \<or> (\<exists>kvs. v = VMap kvs \<and> nested_text kvs = Some (extractTextFromResult e v)))
   \<and> ((\<forall>kvs. v \<noteq> VMap kvs) \<longrightarrow> extractTextFromResult e v = MarshalIndent e v)
   \<and> ((\<forall>f\<in>set textFields. \<forall>s. map_of kvs f = Some (VStr s) \<longrightarrow> s = '''') \<and> nested_text kvs = None
        \<longrightarrow> extractTextFromResult e (VMap kvs) = MarshalIndent e (VMap kvs))
   \<and> extractTextFromResult e (VStr (extractTextFromResult e v)) =
        MarshalIndent e (VStr (extractTextFromResult e v))
   \<and> (textFields = pre @ f # post
        \<and> (\<forall>g\<in>set pre. \<forall>s. map_of kvs g = Some (VStr s) \<longrightarrow> s = '''')
        \<and> map_of kvs f = Some (VStr t) \<and> t \<noteq> ''''
        \<longrightarrow> extractTextFromResult e (VMap kvs) = t)
   \<and> ((\<forall>f\<in>set textFields. \<forall>s. map_of kvs f = Some (VStr s) \<longrightarrow> s = '''')
        \<and> map_of kvs ''content'' = Some (VSlice (VMap item # items))
        \<and> map_of item ''text'' = Some (VStr u)
        \<longrightarrow> extractTextFromResult e (VMap kvs) = u)
   \<and> ((\<forall>f\<in>set textFields. \<forall>s. map_of kvs f = Some (VStr s) \<longrightarrow> s = '''')
        \<and> \<not> (\<exists>item items u. map_of kvs ''content'' = Some (VSlice (VMap item # items))
                 \<and> map_of item ''text'' = Some (VStr u))
        \<longrightarrow> extractTextFromResult e (VMap kvs) = MarshalIndent e (VMap kvs))
   \<and> ((extractTextFromResult e (VStr (extractTextFromResult e v)) = extractTextFromResult e v)
        = (MarshalIndent e (VStr (extractTextFromResult e v)) = extractTextFromResult e v))"
proof -
  have 1: "extractTextFromResult e v = MarshalIndent e v
      \<or> (\<exists>kvs. v = VMap kvs \<and> extractTextFromResult e v \<noteq> '''' \<and>
            (\<exists>f\<in>set textFields. map_of kvs f = Some (VStr (extractTextFromResult e v))))
      \<or> (\<exists>kvs. v = VMap kvs \<and> nested_text kvs = Some (extractTextFromResult e v))"
  proof (cases v)
    case (VMap kvs)
    show ?thesis
    proof (cases "first_text kvs textFields")
      case None
      with VMap show ?thesis
        by (cases "nested_text kvs") (simp_all add: extractTextFromResult_def)
    next
      case (Some t)
      from first_text_Some [OF Some] VMap Some show ?thesis
        by (simp add: extractTextFromResult_def)
    qed
  qed (simp_all add: extractTextFromResult_def)
  have 2: "(\<forall>kvs. v \<noteq> VMap kvs) \<longrightarrow> extractTextFromResult e v = MarshalIndent e v"
    by (cases v) (simp_all add: extractTextFromResult_def)
  have 3: "(\<forall>f\<in>set textFields. \<forall>s. map_of kvs f = Some (VStr s) \<longrightarrow> s = '''') \<and> nested_text kvs = None
        \<longrightarrow> extractTextFromResult e (VMap kvs) = MarshalIndent e (VMap kvs)"
    using first_text_None [of textFields kvs] by (auto simp add: extractTextFromResult_def)
  have 4: "extractTextFromResult e (VStr (extractTextFromResult e v)) =
        MarshalIndent e (VStr (extractTextFromResult e v))"
    by (simp add: extractTextFromResult_def)
  have 5: "textFields = pre @ f # post
        \<and> (\<forall>g\<in>set pre. \<forall>s. map_of kvs g = Some (VStr s) \<longrightarrow> s = '''')
        \<and> map_of kvs f = Some (VStr t) \<and> t \<noteq> ''''
        \<longrightarrow> extractTextFromResult e (VMap kvs) = t"
    using extractTextFromResult_top_level [of pre f post kvs t e] by blast
  have 6: "(\<forall>f\<in>set textFields. \<forall>s. map_of kvs f = Some (VStr s) \<longrightarrow> s = '''')
        \<and> map_of kvs ''content'' = Some (VSlice (VMap item # items))
        \<and> map_of item ''text'' = Some (VStr u)
        \<longrightarrow> extractTextFromResult e (VMap kvs) = u"
    using extractTextFromResult_nested [of kvs item items u e] by blast
  have 7: "(\<forall>f\<in>set textFields. \<forall>s. map_of kvs f = Some (VStr s) \<longrightarrow> s = '''')
        \<and> \<not> (\<exists>item items u. map_of kvs ''content'' = Some (VSlice (VMap item # items))
                 \<and> map_of item ''text'' = Some (VStr u))
        \<longrightarrow> extractTextFromResult e (VMap kvs) = MarshalIndent e (VMap kvs)"
    using extractTextFromResult_no_match [of kvs e] by blast
  have 8: "(extractTextFromResult e (VStr (extractTextFromResult e v)) = extractTextFromResult e v)
        = (MarshalIndent e (VStr (extractTextFromResult e v)) = extractTextFromResult e v)"
    by (simp only: 4)
  show ?thesis
    by (intro conjI) (rule 1 2 3 4 5 6 7 8)+
qed

theorem extractTextFromResult_fallback_witness:
  \<open>list_all (\<lambda>f. map_of [(''count'', VNum ''3'')] f = None) textFields
   \<and> nested_text [(''count'', VNum ''3'')] = None
   \<and> extractTextFromResult weather_gateway (VMap [(''count'', VNum ''3'')])
       = ''{'' @ [CHR 0x0A] @ ''  "count": 3'' @ [CHR 0x0A] @ ''}''
   \<and> extractTextFromResult weather_gateway VNil = ''null''
   \<and> extractTextFromResult weather_gateway (VMap [(''text'', VStr ''''), (''answer'', VStr ''Sunny'')])
       = ''Sunny''
   \<and> extractTextFromResult weather_gateway
        (VMap [(''content'', VSlice [VMap [(''text'', VStr ''Rainy'')]])]) = ''Rainy''\<close>
proof -
  let ?kvs = "[(''count'', VNum ''3'')]"
  let ?top = "[(''text'', VStr ''''), (''answer'', VStr ''Sunny'')]"
  let ?item = "[(''text'', VStr ''Rainy'')]"
  let ?nest = "[(''content'', VSlice [VMap ?item])]"
  
  have h: "(\<forall>f\<in>set textFields. \<forall>s. map_of ?kvs f = Some (VStr s) \<longrightarrow> s = '''') \<and> nested_text ?kvs = None"
    by (simp add: textFields_def nested_text_def)
  have n: "\<forall>kvs. VNil \<noteq> VMap kvs" by simp
  have m: \<open>MarshalIndent weather_gateway (VMap ?kvs) = ''{'' @ [CHR 0x0A] @ ''  "count": 3'' @ [CHR 0x0A] @ ''}''\<close>
    by (simp add: weather_gateway_def scenario_def go_MarshalIndent_def quote_def escape_byte_def)
  have m': "MarshalIndent weather_gateway VNil = ''null''"
    by (simp add: weather_gateway_def scenario_def go_MarshalIndent_def)
  have t1: "textFields = [''text'', ''response''] @ ''answer'' # [''result'', ''output'', ''message'', ''content'']"
    by (simp add: textFields_def)
  have t2: "\<forall>g\<in>set [''text'', ''response'']. \<forall>s. map_of ?top g = Some (VStr s) \<longrightarrow> s = ''''"
    by simp
  have t3: "map_of ?top ''answer'' = Some (VStr ''Sunny'') \<and> ''Sunny'' \<noteq> ''''" by simp
  have n1: "\<forall>f\<in>set textFields. \<forall>s. map_of ?nest f = Some (VStr s) \<longrightarrow> s = ''''"
    by (simp add: textFields_def)
  have n2: "map_of ?nest ''content'' = Some (VSlice (VMap ?item # []))
            \<and> map_of ?item ''text'' = Some (VStr ''Rainy'')" by simp
  from extractTextFromResult_fallback [of weather_gateway "VMap ?kvs" ?kvs] h m
  have a: \<open>extractTextFromResult weather_gateway (VMap ?kvs) = ''{'' @ [CHR 0x0A] @ ''  "count": 3'' @ [CHR 0x0A] @ ''}''\<close>
    by simp
  from extractTextFromResult_fallback [of weather_gateway VNil "[]"] n m'
  have b: "extractTextFromResult weather_gateway VNil = ''null''"
    by simp
  from extractTextFromResult_fallback [where e = weather_gateway and kvs = ?top and pre = "[''text'', ''response'']"
      and f = "''answer''" and post = "[''result'', ''output'', ''message'', ''content'']"
      and t = "''Sunny''"] t1 t2 t3
  have c: "extractTextFromResult weather_gateway (VMap ?top) = ''Sunny''"
    by blast
  from extractTextFromResult_fallback [where e = weather_gateway and kvs = ?nest and item = ?item and items = "[]"
      and u = "''Rainy''"] n1 n2
  have d: "extractTextFromResult weather_gateway (VMap ?nest) = ''Rainy''"
    by blast
  have l: "list_all (\<lambda>f. map_of ?kvs f = None) textFields"
    by (simp add: textFields_def)
  from h l a b c d show ?thesis by simp
qed

text \<open>
  C4 as stated fails: the extractor maps the object with the field \<open>text\<close> holding
  \<open>hi\<close> to the two characters \<open>hi\<close>, and maps that string to the four characters
  of its JSON encoding, \<open>hi\<close> between double quotes.
\<close>

theorem extractTextFromResult_not_idempotent_counterexample:
  \<open>extractTextFromResult weather_gateway (VMap [(''text'', VStr ''hi'')]) = ''hi''
   \<and> extractTextFromResult weather_gateway (VStr ''hi'') = ''"hi"''
   \<and> extractTextFromResult weather_gateway
        (VStr (extractTextFromResult weather_gateway (VMap [(''text'', VStr ''hi'')])))
       \<noteq> extractTextFromResult weather_gateway (VMap [(''text'', VStr ''hi'')])\<close>
  by (simp add: extractTextFromResult_def textFields_def weather_gateway_def scenario_def
      go_MarshalIndent_def quote_def escape_byte_def)

subsection \<open>The protocol flow and the GET probe on concrete gateways\<close>

lemma AIFunction_nonempty:
  "prompt \<noteq> [] \<Longrightarrow> model \<noteq> [] \<Longrightarrow>
   fst (AIFunction e prompt model) = fst (GatherInformation e (NewMCPClient base) prompt model)"
  by (simp add: AIFunction_def base_def split: prod.splits)

text \<open>
  C3. The specification asks for an error return when the first tool descriptor is
  not a structured object or has no string-valued name. The program panics instead: with
  the tool list \<open>[42]\<close> the assertion \<open>tools[0].(map[string]interface{})\<close> fails, with
  the tool list \<open>[{}]\<close> the assertion \<open>toolMap["name"].(string)\<close> fails, and nothing
  recovers the panic on the way out of \<open>AIFunction\<close>.
\<close>

theorem tryMCPFlow_panics:
  "fst (tryMCPFlow (rpc_gateway number_tool empty_text_result) (NewMCPClient base) ''p'' ''m'')
     = Panicked NotAMap
   \<and> fst (tryMCPFlow (rpc_gateway nameless_tool empty_text_result) (NewMCPClient base) ''p'' ''m'')
     = Panicked NotAString
   \<and> fst (AIFunction (rpc_gateway number_tool empty_text_result) ''p'' ''m'') = Panicked NotAMap"
proof -
  have a: "fst (tryMCPFlow (rpc_gateway number_tool empty_text_result) (NewMCPClient base) ''p'' ''m'')
     = Panicked NotAMap"
    by (simp add: model_defs scenario_defs rpc_gateway_def number_tool_def)
  have b: "fst (tryMCPFlow (rpc_gateway nameless_tool empty_text_result) (NewMCPClient base) ''p'' ''m'')
     = Panicked NotAString"
    by (simp add: model_defs scenario_defs rpc_gateway_def nameless_tool_def)
  have "fst (GatherInformation (rpc_gateway number_tool empty_text_result) (NewMCPClient base) ''p'' ''m'')
     = Panicked NotAMap"
    by (simp add: model_defs scenario_defs rpc_gateway_def number_tool_def)
  then have c: "fst (AIFunction (rpc_gateway number_tool empty_text_result) ''p'' ''m'') = Panicked NotAMap"
    by (simp add: AIFunction_nonempty)
  from a b c show ?thesis by simp
qed

text \<open>
  C2. The specification asks for the token in both \<open>X-Session-ID\<close> and
  \<open>Session-ID\<close> on every request once a session is negotiated; \<open>sendRequest\<close> and
  \<open>tryDirectAPI\<close> set both, \<open>tryAlternativeEndpoints\<close> sets only the first. Here
  the gateway hands out the token \<open>tok\<close> in
  its seventh answer. The next request, the JSON-RPC \<open>initialize\<close>, carries the token in
  both headers; the three GET requests that follow carry it in \<open>X-Session-ID\<close> only.
\<close>

theorem GET_probe_omits_Session_ID:
  "sessionID (snd (GatherInformation session_only_gateway (NewMCPClient base) ''p'' ''m'')) = ''tok''
   \<and> map (\<lambda>r. (rq_method r, map_of (rq_header r) ''X-Session-ID'', map_of (rq_header r) ''Session-ID''))
       (drop 7 (Client (snd (GatherInformation session_only_gateway (NewMCPClient base) ''p'' ''m''))))
     = [(''POST'', Some ''tok'', Some ''tok''),
        (''GET'', Some ''tok'', None),
        (''GET'', Some ''tok'', None),
        (''GET'', Some ''tok'', None)]"
proof -
  have a: "sessionID (snd (GatherInformation session_only_gateway (NewMCPClient base) ''p'' ''m'')) = ''tok''"
    by (simp add: model_defs scenario_defs session_only_gateway_def)
  have b: "map (\<lambda>r. (rq_method r, map_of (rq_header r) ''X-Session-ID'', map_of (rq_header r) ''Session-ID''))
       (drop 7 (Client (snd (GatherInformation session_only_gateway (NewMCPClient base) ''p'' ''m''))))
     = [(''POST'', Some ''tok'', Some ''tok''),
        (''GET'', Some ''tok'', None),
        (''GET'', Some ''tok'', None),
        (''GET'', Some ''tok'', None)]"
    by (simp add: model_defs scenario_defs session_only_gateway_def)
  from a b show ?thesis by simp
qed

lemma first_text_nonempty: "first_text kvs fs = Some t \<Longrightarrow> t \<noteq> ''''"
  by (induction fs) (auto split: option.splits jvalue.splits if_splits)

text \<open>
  C10. A top-level text field that holds the empty string is not accepted: a map with
  only such a field falls through to the pretty-printed JSON. The nested path returns
  \<open>content[0].text\<close> whatever it is, also the empty string: when no top-level field
  holds a non-empty string and \<open>content[0]\<close> is a map whose \<open>text\<close> is the string \<open>t\<close>,
  the extractor returns \<open>t\<close>. So when the direct-API probe has failed, initialization
  and tool listing succeed, the first tool has a name and the tool call returns such a
  result, both \<open>tryMCPFlow\<close> and \<open>GatherInformation\<close> succeed with \<open>t\<close>; for the result
  \<open>{"content":[{"text":""}]}\<close> that is the empty string.
\<close>

theorem empty_nested_text_is_returned:
  "((\<forall>f\<in>set textFields. \<forall>s. map_of resultMap f = Some (VStr s) \<longrightarrow> s = '''')
      \<and> map_of resultMap ''content'' = Some (VSlice (VMap item # items))
      \<and> map_of item ''text'' = Some (VStr t)
     \<longrightarrow> extractTextFromResult e (VMap resultMap) = t
         \<and> (tryDirectAPI e c prompt model = (Inl err, c0)
              \<and> Initialize e c0 = (Inr (), c1)
              \<and> ListTools e c1 = (Inr (VMap toolMap # tools), c2)
              \<and> map_of toolMap ''name'' = Some (VStr toolName)
              \<and> CallTool e c2 toolName [(''prompt'', VStr prompt), (''model'', VStr model)]
                    = (Inr (VMap resultMap), c3)
             \<longrightarrow> tryMCPFlow e c0 prompt model = (Returned (Inr t), c3)
                 \<and> GatherInformation e c prompt model = (Returned (Inr t), c3)))
   \<and> (f \<in> set textFields \<longrightarrow>
        extractTextFromResult e (VMap [(f, VStr '''')]) = MarshalIndent e (VMap [(f, VStr '''')]))
   \<and> (\<forall>t. first_text kvs textFields = Some t \<longrightarrow> t \<noteq> '''')
   \<and> nested_text [(''content'', VSlice (VMap [(''text'', VStr t')] # more_items))] = Some t'
   \<and> extractTextFromResult e (VMap [(''content'', VSlice [VMap [(''text'', VStr '''')]])]) = ''''"
proof -
  have A: "extractTextFromResult e (VMap resultMap) = t
         \<and> (tryDirectAPI e c prompt model = (Inl err, c0)
              \<and> Initialize e c0 = (Inr (), c1)
              \<and> ListTools e c1 = (Inr (VMap toolMap # tools), c2)
              \<and> map_of toolMap ''name'' = Some (VStr toolName)
              \<and> CallTool e c2 toolName [(''prompt'', VStr prompt), (''model'', VStr model)]
                    = (Inr (VMap resultMap), c3)
             \<longrightarrow> tryMCPFlow e c0 prompt model = (Returned (Inr t), c3)
                 \<and> GatherInformation e c prompt model = (Returned (Inr t), c3))"
    if h: "(\<forall>f\<in>set textFields. \<forall>s. map_of resultMap f = Some (VStr s) \<longrightarrow> s = '''')
      \<and> map_of resultMap ''content'' = Some (VSlice (VMap item # items))
      \<and> map_of item ''text'' = Some (VStr t)"
  proof -
    from h have x: "extractTextFromResult e (VMap resultMap) = t"
      by (intro extractTextFromResult_nested [of resultMap item items t e]) blast+
    have "tryMCPFlow e c0 prompt model = (Returned (Inr t), c3)
          \<and> GatherInformation e c prompt model = (Returned (Inr t), c3)"
      if flow: "tryDirectAPI e c prompt model = (Inl err, c0)
              \<and> Initialize e c0 = (Inr (), c1)
              \<and> ListTools e c1 = (Inr (VMap toolMap # tools), c2)
              \<and> map_of toolMap ''name'' = Some (VStr toolName)
              \<and> CallTool e c2 toolName [(''prompt'', VStr prompt), (''model'', VStr model)]
                    = (Inr (VMap resultMap), c3)"
    proof -
      from flow x have m: "tryMCPFlow e c0 prompt model = (Returned (Inr t), c3)"
        by (simp add: tryMCPFlow_def)
      with flow have "GatherInformation e c prompt model = (Returned (Inr t), c3)"
        by (simp add: GatherInformation_def)
      with m show ?thesis by simp
    qed
    with x show ?thesis by blast
  qed
  have B: "f \<in> set textFields \<longrightarrow>
        extractTextFromResult e (VMap [(f, VStr '''')]) = MarshalIndent e (VMap [(f, VStr '''')])"
    using extractTextFromResult_empty_field [of f e] by blast
  have C: "\<forall>t. first_text kvs textFields = Some t \<longrightarrow> t \<noteq> ''''"
    using first_text_nonempty by blast
  have D: "nested_text [(''content'', VSlice (VMap [(''text'', VStr t')] # more_items))] = Some t'"
    by (simp add: nested_text_def)
  have E: "extractTextFromResult e (VMap [(''content'', VSlice [VMap [(''text'', VStr '''')]])]) = ''''"
    by (simp add: extractTextFromResult_def textFields_def nested_text_def)
  from A B C D E show ?thesis by blast
qed

theorem empty_nested_text_is_returned_witness:
  "fst (tryMCPFlow (rpc_gateway weather_tool empty_text_result)
          (snd (tryDirectAPI (rpc_gateway weather_tool empty_text_result) (NewMCPClient base) ''p'' ''m''))
          ''p'' ''m'') = Returned (Inr '''')
   \<and> fst (GatherInformation (rpc_gateway weather_tool empty_text_result) (NewMCPClient base) ''p'' ''m'')
       = Returned (Inr '''')"
proof -
  let ?e = "rpc_gateway weather_tool empty_text_result" and ?c = "NewMCPClient base"
  let ?item = "[(''text'', VStr '''')]"
  let ?rm = "[(''content'', VSlice [VMap ?item])]"
  define c0 where "c0 = snd (tryDirectAPI ?e ?c ''p'' ''m'')"
  have "fst (tryDirectAPI ?e ?c ''p'' ''m'') = Inl ErrDirectFailed
        \<and> BaseURL (snd (tryDirectAPI ?e ?c ''p'' ''m'')) = base
        \<and> sessionID (snd (tryDirectAPI ?e ?c ''p'' ''m'')) = ''''
        \<and> nextID (snd (tryDirectAPI ?e ?c ''p'' ''m'')) = 1"
    by (simp add: tryDirectAPI_def directEndpoints_def Client_Do_def NewMCPClient_def
        direct_request_def rpc_gateway_def scenario_defs)
  then have h1: "tryDirectAPI ?e ?c ''p'' ''m'' = (Inl ErrDirectFailed, c0)"
    and c0: "BaseURL c0 = base" "sessionID c0 = ''''" "nextID c0 = 1"
    by (simp_all add: c0_def prod_eq_iff)
  define c1 where "c1 = snd (Initialize ?e c0)"
  have "fst (Initialize ?e c0) = Inr ()
        \<and> BaseURL (snd (Initialize ?e c0)) = base
        \<and> sessionID (snd (Initialize ?e c0)) = ''''
        \<and> nextID (snd (Initialize ?e c0)) = 2"
    by (simp add: Initialize_def CreateSession_def sessionEndpoints_def initializeWithSession_def
        sendRequest_def getNextID_def Client_Do_def session_request_def initialize_request_def
        rpc_request_def rpc_gateway_def scenario_defs c0)
  then have h2: "Initialize ?e c0 = (Inr (), c1)"
    and c1: "BaseURL c1 = base" "sessionID c1 = ''''" "nextID c1 = 2"
    by (simp_all add: c1_def prod_eq_iff)
  define c2 where "c2 = snd (ListTools ?e c1)"
  have "fst (ListTools ?e c1) = Inr [VMap [(''name'', VStr ''weather'')]]
        \<and> BaseURL (snd (ListTools ?e c1)) = base
        \<and> sessionID (snd (ListTools ?e c1)) = ''''"
    by (simp add: ListTools_def sendRequest_def getNextID_def Client_Do_def rpc_request_def
        rpc_gateway_def scenario_defs weather_tool_def c1)
  then have h3: "ListTools ?e c1 = (Inr (VMap [(''name'', VStr ''weather'')] # []), c2)"
    and c2: "BaseURL c2 = base" "sessionID c2 = ''''"
    by (simp_all add: c2_def prod_eq_iff)
  have h4: "map_of [(''name'', VStr ''weather'')] ''name'' = Some (VStr ''weather'')"
    by simp
  define c3 where "c3 = snd (CallTool ?e c2 ''weather'' [(''prompt'', VStr ''p''), (''model'', VStr ''m'')])"
  have "fst (CallTool ?e c2 ''weather'' [(''prompt'', VStr ''p''), (''model'', VStr ''m'')])
          = Inr (VMap ?rm)"
    by (simp add: CallTool_def sendRequest_def getNextID_def Client_Do_def rpc_request_def
        rpc_gateway_def scenario_defs empty_text_result_def c2)
  then have h5: "CallTool ?e c2 ''weather'' [(''prompt'', VStr ''p''), (''model'', VStr ''m'')]
          = (Inr (VMap ?rm), c3)"
    by (simp add: c3_def prod_eq_iff)
  have h6: "\<forall>f\<in>set textFields. \<forall>s. map_of ?rm f = Some (VStr s) \<longrightarrow> s = ''''"
    by (simp add: textFields_def)
  have h7: "map_of ?rm ''content'' = Some (VSlice (VMap ?item # []))" by simp
  have h8: "map_of ?item ''text'' = Some (VStr '''')" by simp
  from empty_nested_text_is_returned [where e = ?e and c = ?c and prompt = "''p''" and model = "''m''"
      and resultMap = ?rm and item = ?item and items = "[]" and t = "''''"
      and err = ErrDirectFailed and ?c0.0 = c0 and ?c1.0 = c1 and ?c2.0 = c2 and ?c3.0 = c3
      and toolMap = "[(''name'', VStr ''weather'')]" and tools = "[]"
      and toolName = "''weather''"]
    h1 h2 h3 h4 h5 h6 h7 h8
  have "tryMCPFlow ?e c0 ''p'' ''m'' = (Returned (Inr ''''), c3)"
    and "GatherInformation ?e ?c ''p'' ''m'' = (Returned (Inr ''''), c3)"
    by blast+
  then show ?thesis by (simp add: c0_def)
qed

subsection \<open>The order of the three strategies\<close>

lemma issues_refl: "issues P c c"
  by (simp add: issues_def)

lemma issues_trans: "issues P a b \<Longrightarrow> issues P b c \<Longrightarrow> issues P a c"
  by (auto simp: issues_def)

lemma issues_send: "P r \<Longrightarrow> issues P c (c\<lparr>Client := Client c @ [r]\<rparr>)"
  by (simp add: issues_def)

lemma issues_sessionID [simp]: "issues P c (c'\<lparr>sessionID := s\<rparr>) = issues P c c'"
  by (simp add: issues_def)

lemma issues_nextID [simp]: "issues P c (c'\<lparr>nextID := n\<rparr>) = issues P c c'"
  by (simp add: issues_def)

lemma issues_from_nextID [simp]: "issues P (c\<lparr>nextID := n\<rparr>) c' = issues P c c'"
  by (simp add: issues_def)

lemma issues_BaseURL: "issues P c c' \<Longrightarrow> BaseURL c' = BaseURL c"
  by (simp add: issues_def)

lemma issues_length: "issues P c c' \<Longrightarrow> length (Client c) \<le> length (Client c')"
  by (auto simp: issues_def)

lemma stage_requests_disjoint:
  "\<not> (direct_stage_request b r \<and> protocol_stage_request b r)"
  "\<not> (direct_stage_request b r \<and> get_stage_request r)"
  "\<not> (protocol_stage_request b r \<and> get_stage_request r)"
  by (auto simp: direct_stage_request_def protocol_stage_request_def get_stage_request_def
      directEndpoints_def sessionEndpoints_def)

lemma tryDirectAPI_loop_issues:
  "set endpoints \<subseteq> set directEndpoints \<Longrightarrow>
   issues (direct_stage_request (BaseURL c)) c (snd (tryDirectAPI_loop e c prompt model endpoints))"
proof (induction endpoints arbitrary: c)
  case Nil
  show ?case by (simp add: issues_refl)
next
  case (Cons endpoint rest)
  let ?P = "direct_stage_request (BaseURL c)"
  let ?req = "direct_request c prompt model endpoint"
  let ?c1 = "c\<lparr>Client := Client c @ [?req]\<rparr>"
  from Cons.prems have "?P ?req"
    by (simp add: direct_stage_request_def direct_request_def)
  then have one: "issues ?P c ?c1" by (rule issues_send)
  from Cons.prems have "issues (direct_stage_request (BaseURL ?c1)) ?c1
      (snd (tryDirectAPI_loop e ?c1 prompt model rest))"
    by (intro Cons.IH) simp
  with one have more: "issues ?P c (snd (tryDirectAPI_loop e ?c1 prompt model rest))"
    by (simp add: issues_trans)
  from Cons.prems have skip: "issues ?P c (snd (tryDirectAPI_loop e c prompt model rest))"
    by (intro Cons.IH) simp
  from one more skip show ?case
    by (simp add: Client_Do_def split: option.splits)
qed

lemma tryAlternativeEndpoints_loop_issues:
  "issues get_stage_request c (snd (tryAlternativeEndpoints_loop e c endpoints))"
proof (induction endpoints arbitrary: c)
  case Nil
  show ?case by (simp add: issues_refl)
next
  case (Cons endpoint rest)
  let ?c1 = "c\<lparr>Client := Client c @ [get_request c endpoint]\<rparr>"
  have "get_stage_request (get_request c endpoint)"
    by (simp add: get_stage_request_def get_request_def)
  then have one: "issues get_stage_request c ?c1" by (rule issues_send)
  from one Cons.IH [of ?c1]
  have more: "issues get_stage_request c (snd (tryAlternativeEndpoints_loop e ?c1 rest))"
    by (rule issues_trans)
  from one more Cons.IH [of c] show ?case
    by (simp add: Client_Do_def split: option.splits)
qed

lemma initializeWithSession_issues:
  "issues (protocol_stage_request (BaseURL c)) c (snd (initializeWithSession e c))"
proof -
  have "protocol_stage_request (BaseURL c) (initialize_request c)"
    by (simp add: protocol_stage_request_def initialize_request_def)
  then have "issues (protocol_stage_request (BaseURL c)) c (c\<lparr>Client := Client c @ [initialize_request c]\<rparr>)"
    by (rule issues_send)
  then show ?thesis
    by (simp add: initializeWithSession_def Client_Do_def issues_refl split: option.splits)
qed

lemma CreateSession_loop_issues:
  "set endpoints \<subseteq> set sessionEndpoints \<Longrightarrow>
   issues (protocol_stage_request (BaseURL c)) c (snd (CreateSession_loop e c endpoints))"
proof (induction endpoints arbitrary: c)
  case Nil
  show ?case by (simp add: initializeWithSession_issues)
next
  case (Cons endpoint rest)
  let ?P = "protocol_stage_request (BaseURL c)"
  let ?req = "session_request c endpoint"
  let ?c1 = "c\<lparr>Client := Client c @ [?req]\<rparr>"
  from Cons.prems have "?P ?req"
    by (auto simp: protocol_stage_request_def session_request_def)
  then have one: "issues ?P c ?c1" by (rule issues_send)
  from Cons.prems have "issues (protocol_stage_request (BaseURL ?c1)) ?c1
      (snd (CreateSession_loop e ?c1 rest))"
    by (intro Cons.IH) simp
  with one have more: "issues ?P c (snd (CreateSession_loop e ?c1 rest))"
    by (simp add: issues_trans)
  from Cons.prems have skip: "issues ?P c (snd (CreateSession_loop e c rest))"
    by (intro Cons.IH) simp
  from one more skip show ?case
    by (simp add: Client_Do_def split: option.splits)
qed

lemma sendRequest_issues:
  "issues (protocol_stage_request (BaseURL c)) c (snd (sendRequest e c request))"
proof -
  have "protocol_stage_request (BaseURL c) (rpc_request c request)"
    by (simp add: protocol_stage_request_def rpc_request_def)
  then have "issues (protocol_stage_request (BaseURL c)) c (c\<lparr>Client := Client c @ [rpc_request c request]\<rparr>)"
    by (rule issues_send)
  then show ?thesis
    by (simp add: sendRequest_def Client_Do_def issues_refl split: option.splits)
qed

lemma sendRequest_sends:
  "url_ok e (BaseURL c) \<Longrightarrow> length (Client c) < length (Client (snd (sendRequest e c request)))"
  by (simp add: sendRequest_def Client_Do_def split: option.splits)

lemma issues_getNextID [simp]: "issues P (snd (getNextID c)) c' = issues P c c'"
  by (simp add: getNextID_def)

lemma BaseURL_getNextID [simp]: "BaseURL (snd (getNextID c)) = BaseURL c"
  by (simp add: getNextID_def)

lemma Client_getNextID [simp]: "Client (snd (getNextID c)) = Client c"
  by (simp add: getNextID_def)

lemma Initialize_state:
  "snd (Initialize e c) =
     snd (sendRequest e (snd (getNextID (snd (CreateSession e c))))
            \<lparr>JSONRPC = ''2.0'', ID = fst (getNextID (snd (CreateSession e c))),
             Method = ''initialize'', Params = initParams\<rparr>)"
  by (simp add: Initialize_def split: prod.splits sum.splits option.splits)

lemma ListTools_state:
  "snd (ListTools e c) =
     snd (sendRequest e (snd (getNextID c))
            \<lparr>JSONRPC = ''2.0'', ID = fst (getNextID c), Method = ''tools/list'', Params = VMap []\<rparr>)"
  by (simp add: ListTools_def split: prod.splits sum.splits option.splits jvalue.splits)

lemma CallTool_state:
  "snd (CallTool e c toolName arguments) =
     snd (sendRequest e (snd (getNextID c))
            \<lparr>JSONRPC = ''2.0'', ID = fst (getNextID c), Method = ''tools/call'',
             Params = VMap [(''name'', VStr toolName), (''arguments'', VMap arguments)]\<rparr>)"
  by (simp add: CallTool_def split: prod.splits sum.splits option.splits)

lemma CreateSession_issues:
  "issues (protocol_stage_request (BaseURL c)) c (snd (CreateSession e c))"
  unfolding CreateSession_def by (rule CreateSession_loop_issues) simp

lemma Initialize_issues:
  "issues (protocol_stage_request (BaseURL c)) c (snd (Initialize e c))"
proof -
  let ?c1 = "snd (CreateSession e c)"
  let ?c2 = "snd (getNextID ?c1)"
  have a: "issues (protocol_stage_request (BaseURL c)) c ?c1"
    by (rule CreateSession_issues)
  then have b: "BaseURL ?c1 = BaseURL c" by (rule issues_BaseURL)
  have "issues (protocol_stage_request (BaseURL ?c2)) ?c2 (snd (Initialize e c))"
    unfolding Initialize_state by (rule sendRequest_issues)
  then have "issues (protocol_stage_request (BaseURL c)) ?c1 (snd (Initialize e c))"
    by (simp add: b)
  with a show ?thesis by (rule issues_trans)
qed

lemma Initialize_sends:
  assumes "url_ok e (BaseURL c)"
  shows "length (Client c) < length (Client (snd (Initialize e c)))"
proof -
  let ?c1 = "snd (CreateSession e c)"
  let ?c2 = "snd (getNextID ?c1)"
  have a: "issues (protocol_stage_request (BaseURL c)) c ?c1"
    by (rule CreateSession_issues)
  then have b: "BaseURL ?c1 = BaseURL c" by (rule issues_BaseURL)
  from a have "length (Client c) \<le> length (Client ?c1)" by (rule issues_length)
  then have l: "length (Client c) \<le> length (Client ?c2)" by simp
  have "length (Client ?c2) < length (Client (snd (Initialize e c)))"
    unfolding Initialize_state by (rule sendRequest_sends) (simp add: b assms)
  with l show ?thesis by simp
qed

lemma ListTools_issues:
  "issues (protocol_stage_request (BaseURL c)) c (snd (ListTools e c))"
proof -
  let ?c1 = "snd (getNextID c)"
  have "issues (protocol_stage_request (BaseURL ?c1)) ?c1 (snd (ListTools e c))"
    unfolding ListTools_state by (rule sendRequest_issues)
  then show ?thesis by simp
qed

lemma CallTool_issues:
  "issues (protocol_stage_request (BaseURL c)) c (snd (CallTool e c toolName arguments))"
proof -
  let ?c1 = "snd (getNextID c)"
  have "issues (protocol_stage_request (BaseURL ?c1)) ?c1 (snd (CallTool e c toolName arguments))"
    unfolding CallTool_state by (rule sendRequest_issues)
  then show ?thesis by simp
qed

lemma tryMCPFlow_state:
  "snd (tryMCPFlow e c prompt model) = snd (Initialize e c)
   \<or> snd (tryMCPFlow e c prompt model) = snd (ListTools e (snd (Initialize e c)))
   \<or> (\<exists>toolName arguments. snd (tryMCPFlow e c prompt model) =
         snd (CallTool e (snd (ListTools e (snd (Initialize e c)))) toolName arguments))"
  by (auto simp: tryMCPFlow_def split: prod.splits sum.splits option.splits list.splits jvalue.splits)
    (metis snd_conv)+

lemma tryMCPFlow_issues:
  "issues (protocol_stage_request (BaseURL c)) c (snd (tryMCPFlow e c prompt model))"
proof -
  let ?P = "protocol_stage_request (BaseURL c)"
  let ?c1 = "snd (Initialize e c)"
  let ?c2 = "snd (ListTools e ?c1)"
  have a: "issues ?P c ?c1" by (rule Initialize_issues)
  then have b1: "BaseURL ?c1 = BaseURL c" by (rule issues_BaseURL)
  have "issues (protocol_stage_request (BaseURL ?c1)) ?c1 ?c2" by (rule ListTools_issues)
  with b1 have "issues ?P ?c1 ?c2" by simp
  with a have b: "issues ?P c ?c2" by (rule issues_trans)
  then have b2: "BaseURL ?c2 = BaseURL c" by (rule issues_BaseURL)
  have c: "issues ?P c (snd (CallTool e ?c2 toolName arguments))" for toolName arguments
  proof -
    have "issues (protocol_stage_request (BaseURL ?c2)) ?c2 (snd (CallTool e ?c2 toolName arguments))"
      by (rule CallTool_issues)
    with b2 have "issues ?P ?c2 (snd (CallTool e ?c2 toolName arguments))" by simp
    with b show ?thesis by (rule issues_trans)
  qed
  from tryMCPFlow_state [of e c prompt model] a b c show ?thesis by auto
qed

lemma tryMCPFlow_sends:
  assumes "url_ok e (BaseURL c)"
  shows "length (Client c) < length (Client (snd (tryMCPFlow e c prompt model)))"
proof -
  let ?c1 = "snd (Initialize e c)"
  let ?c2 = "snd (ListTools e ?c1)"
  have a: "length (Client c) < length (Client ?c1)"
    using assms by (rule Initialize_sends)
  have "length (Client ?c1) \<le> length (Client ?c2)"
    using ListTools_issues by (rule issues_length)
  with a have b: "length (Client c) < length (Client ?c2)" by simp
  have c: "length (Client c) < length (Client (snd (CallTool e ?c2 toolName arguments)))"
    for toolName arguments
  proof -
    have "length (Client ?c2) \<le> length (Client (snd (CallTool e ?c2 toolName arguments)))"
      using CallTool_issues by (rule issues_length)
    with b show ?thesis by simp
  qed
  from tryMCPFlow_state [of e c prompt model] a b c show ?thesis by auto
qed

lemma tryDirectAPI_issues:
  "issues (direct_stage_request (BaseURL c)) c (snd (tryDirectAPI e c prompt model))"
  unfolding tryDirectAPI_def by (rule tryDirectAPI_loop_issues) simp

lemma tryAlternativeEndpoints_issues:
  "issues get_stage_request c (snd (tryAlternativeEndpoints e c prompt model))"
  unfolding tryAlternativeEndpoints_def by (rule tryAlternativeEndpoints_loop_issues)

text \<open>
  C7. The requests of a call of \<open>GatherInformation\<close> are, in this order, requests of
  the direct-API probe \<open>ds\<close>, then requests of the protocol flow \<open>ms\<close>, then GET requests
  \<open>gs\<close> (the three kinds are disjoint, \<open>stage_requests_disjoint\<close>). If the direct-API
  probe succeeds its result is returned and nothing else is sent. If it fails for all
  six endpoints the protocol flow runs next, from the state the probe left and before
  any GET request, and sends at least one request when the base URL is valid; its
  success is returned with no GET request sent (a panic also ends the call). Only when
  it fails does the GET probe run, from the state the protocol flow left, and its
  outcome is the outcome of the call.
\<close>

theorem GatherInformation_stage_order:
  "\<exists>ds ms gs.
     Client (snd (GatherInformation e c prompt model)) = Client c @ ds @ ms @ gs
   \<and> list_all (direct_stage_request (BaseURL c)) ds
   \<and> list_all (protocol_stage_request (BaseURL c)) ms
   \<and> list_all get_stage_request gs
   \<and> Client (snd (tryDirectAPI e c prompt model)) = Client c @ ds
   \<and> (case fst (tryDirectAPI e c prompt model) of
        Inr t \<Rightarrow> fst (GatherInformation e c prompt model) = Returned (Inr t) \<and> ms = [] \<and> gs = []
      | Inl _ \<Rightarrow>
          Client (snd (tryMCPFlow e (snd (tryDirectAPI e c prompt model)) prompt model))
            = Client c @ ds @ ms
          \<and> (url_ok e (BaseURL c) \<longrightarrow> ms \<noteq> [])
          \<and> (case fst (tryMCPFlow e (snd (tryDirectAPI e c prompt model)) prompt model) of
               Returned (Inr t) \<Rightarrow>
                 fst (GatherInformation e c prompt model) = Returned (Inr t) \<and> gs = []
             | Panicked p \<Rightarrow>
                 fst (GatherInformation e c prompt model) = Panicked p \<and> gs = []
             | Returned (Inl _) \<Rightarrow>
                 GatherInformation e c prompt model =
                   (case tryAlternativeEndpoints e
                           (snd (tryMCPFlow e (snd (tryDirectAPI e c prompt model)) prompt model))
                           prompt model of
                      (r, c3) \<Rightarrow> (Returned r, c3))))"
proof -
  let ?D = "direct_stage_request (BaseURL c)" and ?M = "protocol_stage_request (BaseURL c)"
  obtain r1 c1 where d: "tryDirectAPI e c prompt model = (r1, c1)"
    by (cases "tryDirectAPI e c prompt model")
  obtain r2 c2 where m: "tryMCPFlow e c1 prompt model = (r2, c2)"
    by (cases "tryMCPFlow e c1 prompt model")
  obtain r3 c3 where g: "tryAlternativeEndpoints e c2 prompt model = (r3, c3)"
    by (cases "tryAlternativeEndpoints e c2 prompt model")
  from tryDirectAPI_issues [of c e prompt model] d have D: "issues ?D c c1" by simp
  then have b1: "BaseURL c1 = BaseURL c" by (rule issues_BaseURL)
  from tryMCPFlow_issues [of c1 e prompt model] m b1 have M: "issues ?M c1 c2" by simp
  from tryAlternativeEndpoints_issues [of c2 e prompt model] g
  have G: "issues get_stage_request c2 c3" by simp
  from D obtain ds where ds: "Client c1 = Client c @ ds" "list_all ?D ds"
    by (auto simp: issues_def)
  from M obtain ms where ms: "Client c2 = Client c1 @ ms" "list_all ?M ms"
    by (auto simp: issues_def)
  from G obtain gs where gs: "Client c3 = Client c2 @ gs" "list_all get_stage_request gs"
    by (auto simp: issues_def)
  have sends: "url_ok e (BaseURL c) \<longrightarrow> ms \<noteq> []"
  proof
    assume "url_ok e (BaseURL c)"
    with b1 have "url_ok e (BaseURL c1)" by simp
    from tryMCPFlow_sends [OF this, of prompt model] m ms(1) show "ms \<noteq> []" by simp
  qed
  show ?thesis
  proof (cases r1)
    case (Inr t)
    with d ds show ?thesis
      by (intro exI [of _ ds] exI [of _ "[]"]) (simp add: GatherInformation_def)
  next
    case Inl1: (Inl err)
    show ?thesis
    proof (cases r2)
      case (Panicked p)
      with Inl1 d m ds ms sends show ?thesis
        by (intro exI [of _ ds] exI [of _ ms] exI [of _ "[]"]) (simp add: GatherInformation_def)
    next
      case (Returned r)
      show ?thesis
      proof (cases r)
        case (Inr t)
        with Returned Inl1 d m ds ms sends show ?thesis
          by (intro exI [of _ ds] exI [of _ ms] exI [of _ "[]"]) (simp add: GatherInformation_def)
      next
        case (Inl err2)
        with Returned Inl1 d m g ds ms gs sends show ?thesis
          by (intro exI [of _ ds] exI [of _ ms] exI [of _ gs]) (simp add: GatherInformation_def)
      qed
    qed
  qed
qed

theorem GatherInformation_stage_order_witness:
  "url_ok session_only_gateway (BaseURL (NewMCPClient base))
   \<and> fst (tryDirectAPI session_only_gateway (NewMCPClient base) ''p'' ''m'') = Inl ErrDirectFailed
   \<and> (\<exists>ds ms gs.
        Client (snd (GatherInformation session_only_gateway (NewMCPClient base) ''p'' ''m''))
          = ds @ ms @ gs
        \<and> list_all (direct_stage_request base) ds
        \<and> list_all (protocol_stage_request base) ms
        \<and> list_all get_stage_request gs
        \<and> ms \<noteq> [])
   \<and> map (\<lambda>r. (rq_method r, rq_url r))
        (Client (snd (GatherInformation session_only_gateway (NewMCPClient base) ''p'' ''m'')))
      = [(''POST'', ''http://localhost:8080/api/chat''),
         (''POST'', ''http://localhost:8080/chat''),
         (''POST'', ''http://localhost:8080/api/completion''),
         (''POST'', ''http://localhost:8080/completion''),
         (''POST'', ''http://localhost:8080/api/generate''),
         (''POST'', ''http://localhost:8080/generate''),
         (''POST'', ''http://localhost:8080/session''),
         (''POST'', ''http://localhost:8080''),
         (''GET'', ''http://localhost:8080/?model=m&prompt=p&q=p''),
         (''GET'', ''http://localhost:8080/api?model=m&prompt=p&q=p''),
         (''GET'', ''http://localhost:8080/query?model=m&prompt=p&q=p'')]"
proof -
  let ?e = session_only_gateway and ?c = "NewMCPClient base"
  have u: "url_ok ?e (BaseURL ?c)"
    by (simp add: session_only_gateway_def scenario_def)
  have d: "fst (tryDirectAPI ?e ?c ''p'' ''m'') = Inl ErrDirectFailed"
    by (simp add: tryDirectAPI_def directEndpoints_def Client_Do_def NewMCPClient_def
        direct_request_def session_only_gateway_def scenario_defs)
  have c0: "Client ?c = []" "BaseURL ?c = base"
    by (simp_all add: NewMCPClient_def)
  from GatherInformation_stage_order [of ?e ?c "''p''" "''m''"]
  obtain ds ms gs where
    1: "Client (snd (GatherInformation ?e ?c ''p'' ''m'')) = Client ?c @ ds @ ms @ gs"
    and 2: "list_all (direct_stage_request (BaseURL ?c)) ds"
    and 3: "list_all (protocol_stage_request (BaseURL ?c)) ms"
    and 4: "list_all get_stage_request gs"
    and 5: "case fst (tryDirectAPI ?e ?c ''p'' ''m'') of
        Inr t \<Rightarrow> fst (GatherInformation ?e ?c ''p'' ''m'') = Returned (Inr t) \<and> ms = [] \<and> gs = []
      | Inl _ \<Rightarrow>
          Client (snd (tryMCPFlow ?e (snd (tryDirectAPI ?e ?c ''p'' ''m'')) ''p'' ''m''))
            = Client ?c @ ds @ ms
          \<and> (url_ok ?e (BaseURL ?c) \<longrightarrow> ms \<noteq> [])
          \<and> (case fst (tryMCPFlow ?e (snd (tryDirectAPI ?e ?c ''p'' ''m'')) ''p'' ''m'') of
               Returned (Inr t) \<Rightarrow>
                 fst (GatherInformation ?e ?c ''p'' ''m'') = Returned (Inr t) \<and> gs = []
             | Panicked p \<Rightarrow>
                 fst (GatherInformation ?e ?c ''p'' ''m'') = Panicked p \<and> gs = []
             | Returned (Inl _) \<Rightarrow>
                 GatherInformation ?e ?c ''p'' ''m'' =
                   (case tryAlternativeEndpoints ?e
                           (snd (tryMCPFlow ?e (snd (tryDirectAPI ?e ?c ''p'' ''m'')) ''p'' ''m''))
                           ''p'' ''m'' of
                      (r, c3) \<Rightarrow> (Returned r, c3)))"
    by blast
  from 5 have "url_ok ?e (BaseURL ?c) \<longrightarrow> ms \<noteq> []"
    by (simp only: d sum.case) blast
  with u have 6: "ms \<noteq> []" by blast
  from 1 2 3 4 6 have order: "\<exists>ds ms gs.
        Client (snd (GatherInformation ?e ?c ''p'' ''m'')) = ds @ ms @ gs
        \<and> list_all (direct_stage_request base) ds
        \<and> list_all (protocol_stage_request base) ms
        \<and> list_all get_stage_request gs
        \<and> ms \<noteq> []"
    unfolding c0 by (intro exI [of _ ds] exI [of _ ms] exI [of _ gs]) simp
  have trace: "map (\<lambda>r. (rq_method r, rq_url r)) (Client (snd (GatherInformation ?e ?c ''p'' ''m'')))
      = [(''POST'', ''http://localhost:8080/api/chat''),
         (''POST'', ''http://localhost:8080/chat''),
         (''POST'', ''http://localhost:8080/api/completion''),
         (''POST'', ''http://localhost:8080/completion''),
         (''POST'', ''http://localhost:8080/api/generate''),
         (''POST'', ''http://localhost:8080/generate''),
         (''POST'', ''http://localhost:8080/session''),
         (''POST'', ''http://localhost:8080''),
         (''GET'', ''http://localhost:8080/?model=m&prompt=p&q=p''),
         (''GET'', ''http://localhost:8080/api?model=m&prompt=p&q=p''),
         (''GET'', ''http://localhost:8080/query?model=m&prompt=p&q=p'')]"
    by (simp add: model_defs scenario_defs session_only_gateway_def)
  from u d order trace show ?thesis by blast
qed

subsection \<open>Request ids\<close>













end
